theory Spec2Isabelle
  imports Main
begin

section \<open>Exceptions\<close>

text \<open>
  The imports manager distinguishes two classes of Python exceptions: every handler of
  the form \<^verbatim>\<open>except (SystemExit, KeyboardInterrupt): raise\<close> lets the two control
  exceptions through, and the following \<^verbatim>\<open>except BaseException\<close> handles the rest.
\<close>

datatype py_exc =
    SystemExit
  | KeyboardInterrupt
  | ValueError string
  | RuntimeError string
  | UnboundLocalError string
  | KeyError string
  | TimeoutError
  | OSError string
  | Exception string

definition is_control :: "py_exc \<Rightarrow> bool" where
  "is_control e = (e = SystemExit \<or> e = KeyboardInterrupt)"

section \<open>LibraryMetaData and its filepath base\<close>

text \<open>
  The dataclass \<^verbatim>\<open>LibraryMetaData\<close>. Strings are byte strings: a \<^typ>\<open>string\<close> stands
  for the UTF-8 encoding of the Python string (the bytes \<^verbatim>\<open>.\<close>, \<^verbatim>\<open>/\<close> and \<^verbatim>\<open>_\<close> never
  occur inside a multi-byte sequence, so character replacement and concatenation agree
  with Python's). The equality generated by \<^verbatim>\<open>@dataclass\<close> compares all seven fields,
  which is the equality of the record.
\<close>

record LibraryMetaData =
  meta_version :: string
  name :: "string option"
  member_name :: "string option"
  origin :: "string option"
  submodule_search_locations :: "string list option"
  by_path :: bool
  mtimes :: "(string \<rightharpoonup> int) option"

subsection \<open>zlib.adler32 and the format \<^verbatim>\<open>08x\<close>\<close>

text \<open>
  \<^verbatim>\<open>zlib.adler32(data)\<close> with the default start value 1 (RFC 1950): two sums modulo
  65521, the second in the upper 16 bits.
\<close>

definition adler32_step :: "char \<Rightarrow> nat \<times> nat \<Rightarrow> nat \<times> nat" where
  "adler32_step c ab =
     (let a = (fst ab + of_char c) mod 65521;
          b = (snd ab + a) mod 65521
      in (a, b))"

definition adler32 :: "string \<Rightarrow> nat" where
  "adler32 s = (let ab = fold adler32_step s (1, 0) in snd ab * 65536 + fst ab)"

definition hex_digit :: "nat \<Rightarrow> char" where
  "hex_digit d = ''0123456789abcdef'' ! (d mod 16)"

fun to_hex :: "nat \<Rightarrow> string" where
  "to_hex n = (if n < 16 then [hex_digit n] else to_hex (n div 16) @ [hex_digit (n mod 16)])"

declare to_hex.simps [simp del]

definition format_08x :: "nat \<Rightarrow> string" where
  "format_08x n = (let h = to_hex n in replicate (8 - length h) CHR ''0'' @ h)"

subsection \<open>pathlib\<close>

text \<open>
  \<^verbatim>\<open>filepath_base\<close> uses \<^verbatim>\<open>Path(origin).parent\<close>, \<^verbatim>\<open>str\<close> of it, and
  \<^verbatim>\<open>Path(origin).stem\<close>. They belong to the Python standard library and depend on the
  platform's path flavour, so the model takes them as parameters.
\<close>

record pathlib =
  parent_str :: "string \<Rightarrow> string"
  stem :: "string \<Rightarrow> string"

text \<open>
  The POSIX flavour (\<^verbatim>\<open>PurePosixPath\<close>), used to evaluate the model on concrete paths:
  a path is a root (\<^verbatim>\<open>''\<close>, \<^verbatim>\<open>/\<close> or \<^verbatim>\<open>//\<close>) and the components between slashes that are
  neither empty nor \<^verbatim>\<open>.\<close>.
\<close>

fun split_sep :: "char \<Rightarrow> string \<Rightarrow> string \<Rightarrow> string list" where
  "split_sep sep acc [] = [rev acc]"
| "split_sep sep acc (c # cs) =
     (if c = sep then rev acc # split_sep sep [] cs else split_sep sep (c # acc) cs)"

definition posix_root :: "string \<Rightarrow> string" where
  "posix_root s =
     (case s of
        c1 # c2 # c3 # _ \<Rightarrow>
          (if c1 = CHR ''/'' then (if c2 = CHR ''/'' \<and> c3 \<noteq> CHR ''/'' then ''//'' else ''/'') else [])
      | [c1, c2] \<Rightarrow> (if c1 = CHR ''/'' then (if c2 = CHR ''/'' then ''//'' else ''/'') else [])
      | [c1] \<Rightarrow> (if c1 = CHR ''/'' then ''/'' else [])
      | [] \<Rightarrow> [])"

definition posix_parts :: "string \<Rightarrow> string list" where
  "posix_parts s = filter (\<lambda>p. p \<noteq> [] \<and> p \<noteq> ''.'') (split_sep CHR ''/'' [] s)"

fun join_sep :: "string \<Rightarrow> string list \<Rightarrow> string" where
  "join_sep sep [] = []"
| "join_sep sep [p] = p"
| "join_sep sep (p # q # ps) = p @ sep @ join_sep sep (q # ps)"

definition posix_str :: "string \<Rightarrow> string list \<Rightarrow> string" where
  "posix_str root parts = (if root = [] \<and> parts = [] then ''.'' else root @ join_sep ''/'' parts)"

definition posix_parent_str :: "string \<Rightarrow> string" where
  "posix_parent_str s = posix_str (posix_root s) (butlast (posix_parts s))"

definition posix_name :: "string \<Rightarrow> string" where
  "posix_name s = (let ps = posix_parts s in if ps = [] then [] else last ps)"

text \<open>\<^verbatim>\<open>name.rfind('.')\<close>: the index of the last dot, if there is one.\<close>

fun rfind_dot :: "string \<Rightarrow> nat option" where
  "rfind_dot [] = None"
| "rfind_dot (c # cs) =
     (case rfind_dot cs of
        Some i \<Rightarrow> Some (Suc i)
      | None \<Rightarrow> (if c = CHR ''.'' then Some 0 else None))"

definition posix_stem :: "string \<Rightarrow> string" where
  "posix_stem s =
     (let nm = posix_name s in
      case rfind_dot nm of
        Some i \<Rightarrow> (if 0 < i \<and> i < length nm - 1 then take i nm else nm)
      | None \<Rightarrow> nm)"

definition posix :: pathlib where
  "posix = \<lparr> parent_str = posix_parent_str, stem = posix_stem \<rparr>"

subsection \<open>The property \<^verbatim>\<open>filepath_base\<close>\<close>

definition replace_dot_slash :: "string \<Rightarrow> string" where
  "replace_dot_slash s = map (\<lambda>c. if c = CHR ''.'' then CHR ''/'' else c) s"

text \<open>
  \<^verbatim>\<open>f".{self.member_name}" if self.member_name else ""\<close>: \<^verbatim>\<open>None\<close> and the empty string
  are both falsy.
\<close>

definition member_suffix :: "string option \<Rightarrow> string" where
  "member_suffix mn =
     (case mn of None \<Rightarrow> [] | Some s \<Rightarrow> (if s = [] then [] else ''.'' @ s))"

definition filepath_base :: "pathlib \<Rightarrow> LibraryMetaData \<Rightarrow> py_exc + string" where
  "filepath_base pl m =
     (if by_path m then
        (case origin m of
           Some p \<Rightarrow> Inr (format_08x (adler32 (parent_str pl p)) @ ''_'' @ stem pl p)
         | None \<Rightarrow> Inl (ValueError ''Cannot determine filepath base.''))
      else
        (case name m of
           Some n \<Rightarrow> Inr (replace_dot_slash n @ member_suffix (member_name m))
         | None \<Rightarrow> Inl (ValueError ''Cannot determine filepath base.'')))"

section \<open>Fingerprinting: \<^verbatim>\<open>get_library_meta\<close> and \<^verbatim>\<open>get_variables_meta\<close>\<close>

type_synonym variables = "(string \<times> string) list"

text \<open>
  \<^verbatim>\<open>ModuleSpec\<close> and \<^verbatim>\<open>LibraryDoc\<close> are declared in \<^verbatim>\<open>robotcode.robot.diagnostics.library_doc\<close>;
  the records hold the fields the imports manager reads. \<^verbatim>\<open>VariablesDoc\<close> is a
  \<^verbatim>\<open>LibraryDoc\<close>.
\<close>

record ModuleSpec =
  spec_name :: "string option"
  spec_member_name :: "string option"
  spec_origin :: "string option"
  spec_submodule_search_locations :: "string list option"

record LibraryDoc =
  doc_name :: string
  source :: "string option"
  module_spec :: "ModuleSpec option"
  python_path :: "string list option"
  stdout :: "string option"

text \<open>
  What the fingerprinter asks of the outside world: the module lookup, the file system
  (\<^verbatim>\<open>Path.exists\<close>, \<^verbatim>\<open>Path.stat().st_mtime_ns\<close>, \<^verbatim>\<open>iter_files(loc, "**/*.py")\<close>) and the
  configured ignore patterns with \<^verbatim>\<open>Pattern.matches\<close>. Calls that can raise return a sum.
\<close>

record meta_env =
  version :: string
  paths :: pathlib
  is_library_by_path :: "string \<Rightarrow> bool"
  is_variables_by_path :: "string \<Rightarrow> bool"
  path_exists :: "string \<Rightarrow> bool"
  get_module_spec :: "string \<Rightarrow> py_exc + ModuleSpec option"
  st_mtime_ns :: "string \<Rightarrow> py_exc + int"
  iter_files :: "string \<Rightarrow> py_exc + string list"
  ignored_libraries_patters :: "string list"
  ignored_variables_patters :: "string list"
  matches :: "string \<Rightarrow> string \<Rightarrow> bool"

fun stat_all :: "meta_env \<Rightarrow> string list \<Rightarrow> py_exc + (string \<times> int) list" where
  "stat_all env [] = Inr []"
| "stat_all env (f # fs) =
     (case st_mtime_ns env f of
        Inl e \<Rightarrow> Inl e
      | Inr t \<Rightarrow> (case stat_all env fs of Inl e \<Rightarrow> Inl e | Inr r \<Rightarrow> Inr ((f, t) # r)))"

fun files_mtimes :: "meta_env \<Rightarrow> string list \<Rightarrow> py_exc + (string \<times> int) list" where
  "files_mtimes env [] = Inr []"
| "files_mtimes env (loc # locs) =
     (case iter_files env loc of
        Inl e \<Rightarrow> Inl e
      | Inr fs \<Rightarrow>
          (case stat_all env fs of
             Inl e \<Rightarrow> Inl e
           | Inr r \<Rightarrow> (case files_mtimes env locs of Inl e \<Rightarrow> Inl e | Inr r' \<Rightarrow> Inr (r @ r'))))"

definition update_mtimes :: "(string \<rightharpoonup> int) \<Rightarrow> (string \<times> int) list \<Rightarrow> (string \<rightharpoonup> int)" where
  "update_mtimes m kvs = fold (\<lambda>kv m'. m'(fst kv \<mapsto> snd kv)) kvs m"

text \<open>
  The part of both functions after the ignore check: \<^verbatim>\<open>mtimes\<close> of the origin, then of
  every file under the submodule search locations when that list is non-empty.
\<close>

definition collect_mtimes :: "meta_env \<Rightarrow> LibraryMetaData \<Rightarrow> py_exc + LibraryMetaData" where
  "collect_mtimes env r =
     (case (case origin r of
              None \<Rightarrow> Inr r
            | Some p \<Rightarrow>
                (case st_mtime_ns env p of
                   Inl e \<Rightarrow> Inl e
                 | Inr t \<Rightarrow> Inr (r\<lparr>mtimes := Some [p \<mapsto> t]\<rparr>))) of
        Inl e \<Rightarrow> Inl e
      | Inr r1 \<Rightarrow>
          (case submodule_search_locations r1 of
             None \<Rightarrow> Inr r1
           | Some locs \<Rightarrow>
               if locs = [] then Inr r1
               else
                 (case files_mtimes env locs of
                    Inl e \<Rightarrow> Inl e
                  | Inr kvs \<Rightarrow>
                      Inr (r1\<lparr>mtimes :=
                             Some (update_mtimes
                                     (case mtimes r1 of None \<Rightarrow> Map.empty | Some m \<Rightarrow> m) kvs)\<rparr>))))"

definition is_ignored :: "meta_env \<Rightarrow> string list \<Rightarrow> LibraryMetaData \<Rightarrow> bool" where
  "is_ignored env patterns r =
     list_ex (\<lambda>p. (case name r of Some n \<Rightarrow> matches env p n | None \<Rightarrow> False)
                \<or> (case origin r of Some orig \<Rightarrow> matches env p orig | None \<Rightarrow> False)) patterns"

text \<open>The identity of the import: by path when the resolved name is path-like, else a module.\<close>

definition identify :: "meta_env \<Rightarrow> bool \<Rightarrow> string \<Rightarrow> py_exc + LibraryMetaData option" where
  "identify env is_by_path import_name =
     (if is_by_path then
        (if path_exists env import_name then
           Inr (Some \<lparr> meta_version = version env, name = Some (stem (paths env) import_name),
                      member_name = None, origin = Some import_name,
                      submodule_search_locations = None, by_path = True, mtimes = None \<rparr>)
         else Inr None)
      else
        (case get_module_spec env import_name of
           Inl e \<Rightarrow> Inl e
         | Inr None \<Rightarrow> Inr None
         | Inr (Some ms) \<Rightarrow>
             (case spec_origin ms of
                None \<Rightarrow> Inr None
              | Some orig \<Rightarrow>
                  Inr (Some \<lparr> meta_version = version env, name = spec_name ms,
                             member_name = spec_member_name ms, origin = Some orig,
                             submodule_search_locations = spec_submodule_search_locations ms,
                             by_path = False, mtimes = None \<rparr>))))"

text \<open>
  The body of the \<^verbatim>\<open>try\<close> block after the import name is resolved; an exception raised
  inside is the \<^verbatim>\<open>Inl\<close> result.
\<close>

definition meta_body ::
  "meta_env \<Rightarrow> bool \<Rightarrow> string list \<Rightarrow> string \<Rightarrow> py_exc + (LibraryMetaData option \<times> string)" where
  "meta_body env is_by_path patterns import_name =
     (case identify env is_by_path import_name of
        Inl e \<Rightarrow> Inl e
      | Inr None \<Rightarrow> Inr (None, import_name)
      | Inr (Some r) \<Rightarrow>
          if is_ignored env patterns r then Inr (None, import_name)
          else
            (case collect_mtimes env r of
               Inl e \<Rightarrow> Inl e
             | Inr r' \<Rightarrow> Inr (Some r', import_name)))"

text \<open>
  \<^verbatim>\<open>get_library_meta\<close>. The argument \<open>found\<close> is the outcome of the call
  \<^verbatim>\<open>self.find_library(name, base_dir=base_dir, variables=variables)\<close>, the first statement of
  the \<^verbatim>\<open>try\<close> block. The handler re-raises the two control exceptions and passes on every
  other one; the statement after the handler is \<^verbatim>\<open>return None, import_name\<close>, and
  \<^verbatim>\<open>import_name\<close> is unbound when \<^verbatim>\<open>find_library\<close> itself raised.
\<close>

definition get_library_meta ::
  "meta_env \<Rightarrow> (py_exc + string) \<Rightarrow> string \<Rightarrow> py_exc + (LibraryMetaData option \<times> string)" where
  "get_library_meta env found nm =
     (case found of
        Inl e \<Rightarrow> (if is_control e then Inl e else Inl (UnboundLocalError ''import_name''))
      | Inr import_name \<Rightarrow>
          (case meta_body env (is_library_by_path env import_name)
                  (ignored_libraries_patters env) import_name of
             Inl e \<Rightarrow> (if is_control e then Inl e else Inr (None, import_name))
           | Inr r \<Rightarrow> Inr r))"

text \<open>
  \<^verbatim>\<open>get_variables_meta\<close>: the same, except that the statement after the handler is
  \<^verbatim>\<open>return None, name\<close>, the name as the caller wrote it.
\<close>

definition get_variables_meta ::
  "meta_env \<Rightarrow> (py_exc + string) \<Rightarrow> string \<Rightarrow> py_exc + (LibraryMetaData option \<times> string)" where
  "get_variables_meta env found nm =
     (case found of
        Inl e \<Rightarrow> (if is_control e then Inl e else Inr (None, nm))
      | Inr import_name \<Rightarrow>
          (case meta_body env (is_variables_by_path env import_name)
                  (ignored_variables_patters env) import_name of
             Inl e \<Rightarrow> (if is_control e then Inl e else Inr (None, nm))
           | Inr r \<Rightarrow> Inr r))"

section \<open>The build closure \<^verbatim>\<open>_get_libdoc\<close>\<close>

subsection \<open>Files, the worker process and the effects of a build\<close>

text \<open>
  A file is absent; or its path cannot be examined, \<^verbatim>\<open>stat\<close> failing with an \<^verbatim>\<open>OSError\<close>
  other than the ones that mean the file is not there (a \<^verbatim>\<open>PermissionError\<close> under a
  directory that cannot be searched, a name that is too long); or it is present but
  fails to read with an exception; or it is present with a text.

  \<^verbatim>\<open>Path.exists()\<close> is false of the first, re-raises the error of the second and is true
  of the last two.
\<close>

datatype file_state = Absent | Inaccessible py_exc | Unreadable py_exc | Content string

type_synonym fs = "string \<Rightarrow> file_state"

definition exists_file :: "fs \<Rightarrow> string \<Rightarrow> py_exc + bool" where
  "exists_file files path =
     (case files path of
        Absent \<Rightarrow> Inr False
      | Inaccessible e \<Rightarrow> Inl e
      | Unreadable e \<Rightarrow> Inr True
      | Content c \<Rightarrow> Inr True)"

text \<open>The existence test of the path returns.\<close>

definition accessible :: "fs \<Rightarrow> string \<Rightarrow> bool" where
  "accessible files path =
     (case files path of
        Absent \<Rightarrow> True
      | Inaccessible e \<Rightarrow> False
      | Unreadable e \<Rightarrow> True
      | Content c \<Rightarrow> True)"

text \<open>
  \<^verbatim>\<open>Path.write_text(data)\<close> opens the file for writing, which truncates it, and writes
  the data. It succeeds, fails at opening (the file keeps its state), or fails after
  opening, when the file holds the bytes written so far.
\<close>

datatype write_outcome = WriteOk | OpenFails py_exc | WriteFails py_exc nat

definition write_text :: "(string \<Rightarrow> write_outcome) \<Rightarrow> fs \<Rightarrow> string \<Rightarrow> string \<Rightarrow> py_exc option \<times> fs" where
  "write_text wo files path data =
     (case wo path of
        WriteOk \<Rightarrow> (None, files(path := Content data))
      | OpenFails e \<Rightarrow> (Some e, files)
      | WriteFails e n \<Rightarrow> (Some e, files(path := Content (take n data))))"

text \<open>
  What the call submitted to the worker process does: it finishes after some seconds
  with a result or an exception (which \<^verbatim>\<open>Future.result\<close> raises in the parent), or it
  never finishes. \<^verbatim>\<open>Future.result(timeout)\<close> raises \<^verbatim>\<open>TimeoutError\<close> when the call has not
  finished in time; \<^verbatim>\<open>Executor.shutdown(wait=True)\<close> returns once the pending call has
  finished.
\<close>

datatype worker_outcome = Finishes nat "py_exc + LibraryDoc" | Never

definition LOAD_LIBRARY_TIME_OUT :: nat where
  "LOAD_LIBRARY_TIME_OUT = 30"

definition future_result :: "worker_outcome \<Rightarrow> nat \<Rightarrow> py_exc + LibraryDoc" where
  "future_result w timeout =
     (case w of
        Finishes d r \<Rightarrow> (if d \<le> timeout then r else Inl TimeoutError)
      | Never \<Rightarrow> Inl TimeoutError)"

definition shutdown_returns :: "worker_outcome \<Rightarrow> bool \<Rightarrow> bool" where
  "shutdown_returns w wait = (case w of Finishes d r \<Rightarrow> True | Never \<Rightarrow> \<not> wait)"

datatype start_method = Spawn | Fork | Forkserver

datatype effect =
    ReadText string
  | ExecutorCreated nat start_method
  | ResultAwaited nat
  | ExecutorShutdown bool
  | Mkdir string
  | WriteText string string
  | LogException py_exc

record build_env =
  pathlib_of :: pathlib
  lib_doc_cache_path :: string
  variables_doc_cache_path :: string
  from_json_meta :: "string \<Rightarrow> py_exc + LibraryMetaData"
  from_json_doc :: "string \<Rightarrow> py_exc + LibraryDoc"
  as_json_meta :: "LibraryMetaData \<Rightarrow> py_exc + string"
  as_json_doc :: "LibraryDoc \<Rightarrow> py_exc + string"
  mkdir_parents :: "string \<Rightarrow> py_exc option"
  write_outcome_of :: "string \<Rightarrow> write_outcome"

text \<open>
  The result of a call of the closure: what it returns or raises (\<open>None\<close> when the
  call never returns), the files afterwards and the effects in the order they happen.
\<close>

record build_result =
  outcome :: "(py_exc + LibraryDoc) option"
  files_after :: fs
  effects :: "effect list"

text \<open>\<^verbatim>\<open>Path(cache_path, base + suffix)\<close>: an absolute second segment replaces the first.\<close>

definition cache_file :: "string \<Rightarrow> string \<Rightarrow> string \<Rightarrow> string" where
  "cache_file cache_path base suffix =
     (case base of
        c # cs \<Rightarrow> (if c = CHR ''/'' then base @ suffix else cache_path @ ''/'' @ base @ suffix)
      | [] \<Rightarrow> cache_path @ ''/'' @ suffix)"

subsection \<open>Reading the cached pair\<close>

datatype load_result = Hit LibraryDoc | Miss | Raised py_exc

text \<open>
  The inner \<^verbatim>\<open>try\<close> of the cache lookup, entered when \<^verbatim>\<open>meta_file.exists()\<close>: it returns
  the cached document, falls through when the stored meta differs, or raises.
\<close>

definition read_text :: "fs \<Rightarrow> string \<Rightarrow> py_exc + string" where
  "read_text files path =
     (case files path of
        Absent \<Rightarrow> Inl (OSError ''No such file or directory'')
      | Inaccessible e \<Rightarrow> Inl e
      | Unreadable e \<Rightarrow> Inl e
      | Content c \<Rightarrow> Inr c)"

definition load_inner ::
  "build_env \<Rightarrow> fs \<Rightarrow> string \<Rightarrow> string \<Rightarrow> LibraryMetaData \<Rightarrow> load_result \<times> effect list" where
  "load_inner env files cache_path base m =
     (let meta_file = cache_file cache_path base ''.meta.json'';
          spec_path = cache_file cache_path base ''.spec.json''
      in case read_text files meta_file of
           Inl e \<Rightarrow> (Raised e, [ReadText meta_file])
         | Inr text \<Rightarrow>
             (case from_json_meta env text of
                Inl e \<Rightarrow> (Raised e, [ReadText meta_file])
              | Inr saved_meta \<Rightarrow>
                  if saved_meta = m then
                    (case read_text files spec_path of
                       Inl e \<Rightarrow> (Raised e, [ReadText meta_file, ReadText spec_path])
                     | Inr spec_text \<Rightarrow>
                         (case from_json_doc env spec_text of
                            Inl e \<Rightarrow> (Raised e, [ReadText meta_file, ReadText spec_path])
                          | Inr d \<Rightarrow> (Hit d, [ReadText meta_file, ReadText spec_path])))
                  else (Miss, [ReadText meta_file])))"

text \<open>
  The test \<^verbatim>\<open>meta_file.exists()\<close> stands before the outer \<^verbatim>\<open>try\<close>: an exception it raises
  leaves the closure, whatever its class. The two handlers around the reading come
  after it: the inner one re-raises a control exception and wraps any other in a
  \<^verbatim>\<open>RuntimeError\<close>; the outer one re-raises a control exception and logs any other,
  after which the build goes on to the worker.
\<close>

definition load_cached ::
  "build_env \<Rightarrow> fs \<Rightarrow> string \<Rightarrow> string \<Rightarrow> LibraryMetaData \<Rightarrow> load_result \<times> effect list" where
  "load_cached env files cache_path base m =
     (case exists_file files (cache_file cache_path base ''.meta.json'') of
        Inl e \<Rightarrow> (Raised e, [])
      | Inr present \<Rightarrow>
          if \<not> present then (Miss, [])
          else
            (case load_inner env files cache_path base m of
               (Raised e, effs) \<Rightarrow>
                 (if is_control e then (Raised e, effs)
                  else (Miss, effs @ [LogException (RuntimeError ''Failed to load library meta data'')]))
             | (r, effs) \<Rightarrow> (r, effs)))"

subsection \<open>Running the worker\<close>

text \<open>
  A fresh \<^verbatim>\<open>ProcessPoolExecutor(max_workers=1, mp_context=mp.get_context("spawn"))\<close>, one
  \<^verbatim>\<open>submit(...).result(LOAD_LIBRARY_TIME_OUT)\<close>, and \<^verbatim>\<open>executor.shutdown(wait=True)\<close> in the
  \<^verbatim>\<open>finally\<close> clause. An exception other than the control ones is logged and re-raised.
  The first component is \<open>None\<close> when the shutdown never returns.
\<close>

definition run_worker :: "worker_outcome \<Rightarrow> (py_exc + LibraryDoc) option \<times> effect list" where
  "run_worker w =
     (let r = future_result w LOAD_LIBRARY_TIME_OUT;
          logged = (case r of
                      Inl e \<Rightarrow> (if is_control e then [] else [LogException e])
                    | Inr d \<Rightarrow> [])
      in (if shutdown_returns w True then Some r else None,
          [ExecutorCreated 1 Spawn, ResultAwaited LOAD_LIBRARY_TIME_OUT] @ logged
          @ [ExecutorShutdown True]))"

subsection \<open>Writing the pair\<close>

text \<open>
  The body of the \<^verbatim>\<open>try\<close> block after the worker returned, for a meta that is not
  \<^verbatim>\<open>None\<close>: the directory, then the spec file (a failure is wrapped in a
  \<^verbatim>\<open>RuntimeError\<close>, a control exception is not), then the meta file. The first component
  is the exception that leaves the block, if any.
\<close>

definition write_pair ::
  "build_env \<Rightarrow> fs \<Rightarrow> string \<Rightarrow> LibraryMetaData \<Rightarrow> LibraryDoc \<Rightarrow> py_exc option \<times> fs \<times> effect list" where
  "write_pair env files cache_path m d =
     (case filepath_base (pathlib_of env) m of
        Inl e \<Rightarrow> (Some e, files, [])
      | Inr base \<Rightarrow>
          (let meta_file = cache_file cache_path base ''.meta.json'';
               spec_file = cache_file cache_path base ''.spec.json'';
               dir = parent_str (pathlib_of env) spec_file
           in case mkdir_parents env dir of
                Some e \<Rightarrow> (Some e, files, [Mkdir dir])
              | None \<Rightarrow>
                  (case as_json_doc env d of
                     Inl e \<Rightarrow>
                       (Some (if is_control e then e else RuntimeError ''Cannot write spec file''),
                        files, [Mkdir dir])
                   | Inr spec_text \<Rightarrow>
                       (case write_text (write_outcome_of env) files spec_file spec_text of
                          (Some e, files1) \<Rightarrow>
                            (Some (if is_control e then e else RuntimeError ''Cannot write spec file''),
                             files1, [Mkdir dir, WriteText spec_file spec_text])
                        | (None, files1) \<Rightarrow>
                            (case as_json_meta env m of
                               Inl e \<Rightarrow> (Some e, files1, [Mkdir dir, WriteText spec_file spec_text])
                             | Inr meta_text \<Rightarrow>
                                 (case write_text (write_outcome_of env) files1 meta_file meta_text of
                                    (r, files2) \<Rightarrow>
                                      (r, files2,
                                       [Mkdir dir, WriteText spec_file spec_text,
                                        WriteText meta_file meta_text])))))))"

text \<open>
  The handler around it: a control exception is re-raised, any other is logged and the
  document is returned.
\<close>

definition save_result ::
  "build_env \<Rightarrow> fs \<Rightarrow> string \<Rightarrow> LibraryMetaData option \<Rightarrow> LibraryDoc \<Rightarrow> effect list \<Rightarrow> build_result" where
  "save_result env files cache_path meta d effs =
     (case meta of
        None \<Rightarrow> \<lparr> outcome = Some (Inr d), files_after = files, effects = effs \<rparr>
      | Some m \<Rightarrow>
          (case write_pair env files cache_path m d of
             (None, files', effs') \<Rightarrow>
               \<lparr> outcome = Some (Inr d), files_after = files', effects = effs @ effs' \<rparr>
           | (Some e, files', effs') \<Rightarrow>
               if is_control e then
                 \<lparr> outcome = Some (Inl e), files_after = files', effects = effs @ effs' \<rparr>
               else
                 \<lparr> outcome = Some (Inr d), files_after = files',
                   effects = effs @ effs' @ [LogException e] \<rparr>))"

subsection \<open>The whole closure\<close>

definition build_from_worker ::
  "build_env \<Rightarrow> fs \<Rightarrow> string \<Rightarrow> worker_outcome \<Rightarrow> LibraryMetaData option \<Rightarrow> effect list \<Rightarrow> build_result" where
  "build_from_worker env files cache_path w meta effs =
     (case run_worker w of
        (None, weffs) \<Rightarrow> \<lparr> outcome = None, files_after = files, effects = effs @ weffs \<rparr>
      | (Some (Inl e), weffs) \<Rightarrow>
          \<lparr> outcome = Some (Inl e), files_after = files, effects = effs @ weffs \<rparr>
      | (Some (Inr d), weffs) \<Rightarrow> save_result env files cache_path meta d (effs @ weffs))"

text \<open>
  \<open>found_meta\<close> is the outcome of the call of \<^verbatim>\<open>get_library_meta\<close> or
  \<^verbatim>\<open>get_variables_meta\<close> that opens the closure. \<^verbatim>\<open>meta.filepath_base\<close> is evaluated
  outside every \<^verbatim>\<open>try\<close> block, so its \<^verbatim>\<open>ValueError\<close> leaves the closure.
\<close>

definition get_libdoc_closure ::
  "build_env \<Rightarrow> string \<Rightarrow> fs \<Rightarrow> worker_outcome \<Rightarrow>
   (py_exc + (LibraryMetaData option \<times> string)) \<Rightarrow> build_result" where
  "get_libdoc_closure env cache_path files w found_meta =
     (case found_meta of
        Inl e \<Rightarrow> \<lparr> outcome = Some (Inl e), files_after = files, effects = [] \<rparr>
      | Inr (None, src) \<Rightarrow> build_from_worker env files cache_path w None []
      | Inr (Some m, src) \<Rightarrow>
          (case filepath_base (pathlib_of env) m of
             Inl e \<Rightarrow> \<lparr> outcome = Some (Inl e), files_after = files, effects = [] \<rparr>
           | Inr base \<Rightarrow>
               (case load_cached env files cache_path base m of
                  (Hit d, effs) \<Rightarrow> \<lparr> outcome = Some (Inr d), files_after = files, effects = effs \<rparr>
                | (Raised e, effs) \<Rightarrow>
                    \<lparr> outcome = Some (Inl e), files_after = files, effects = effs \<rparr>
                | (Miss, effs) \<Rightarrow> build_from_worker env files cache_path w (Some m) effs)))"

text \<open>
  The closure of \<^verbatim>\<open>get_libdoc_for_library_import\<close>: \<open>found\<close> is the outcome of
  \<^verbatim>\<open>find_library\<close> inside \<^verbatim>\<open>get_library_meta\<close>, \<open>w\<close> what \<^verbatim>\<open>get_library_doc\<close> does in the
  worker.
\<close>

definition get_libdoc_library ::
  "build_env \<Rightarrow> meta_env \<Rightarrow> fs \<Rightarrow> worker_outcome \<Rightarrow> (py_exc + string) \<Rightarrow> string \<Rightarrow> build_result" where
  "get_libdoc_library env menv files w found nm =
     get_libdoc_closure env (lib_doc_cache_path env) files w (get_library_meta menv found nm)"

text \<open>The closure of \<^verbatim>\<open>get_libdoc_for_variables_import\<close>.\<close>

definition get_libdoc_variables ::
  "build_env \<Rightarrow> meta_env \<Rightarrow> fs \<Rightarrow> worker_outcome \<Rightarrow> (py_exc + string) \<Rightarrow> string \<Rightarrow> build_result" where
  "get_libdoc_variables env menv files w found nm =
     get_libdoc_closure env (variables_doc_cache_path env) files w (get_variables_meta menv found nm)"

subsection \<open>Reading errors and the use of the worker\<close>

text \<open>
  A read or parse error of the cached pair: the exception raised by reading or parsing
  the meta file or, when the stored meta equals the fresh one, by reading or parsing the
  spec file.
\<close>

definition cache_read_error ::
  "build_env \<Rightarrow> fs \<Rightarrow> string \<Rightarrow> string \<Rightarrow> LibraryMetaData \<Rightarrow> py_exc option" where
  "cache_read_error env files cache_path base m =
     (case read_text files (cache_file cache_path base ''.meta.json'') of
        Inl e \<Rightarrow> Some e
      | Inr text \<Rightarrow>
          (case from_json_meta env text of
             Inl e \<Rightarrow> Some e
           | Inr saved_meta \<Rightarrow>
               if saved_meta = m then
                 (case read_text files (cache_file cache_path base ''.spec.json'') of
                    Inl e \<Rightarrow> Some e
                  | Inr spec_text \<Rightarrow>
                      (case from_json_doc env spec_text of Inl e \<Rightarrow> Some e | Inr d \<Rightarrow> None))
               else None))"

definition runs_subprocess :: "build_result \<Rightarrow> bool" where
  "runs_subprocess r = (ExecutorCreated 1 Spawn \<in> set (effects r))"

definition is_executor :: "effect \<Rightarrow> bool" where
  "is_executor x =
     (case x of
        ExecutorCreated n sm \<Rightarrow> True
      | ResultAwaited t \<Rightarrow> True
      | ExecutorShutdown wait \<Rightarrow> True
      | _ \<Rightarrow> False)"

text \<open>The build closure an entry is created with, as a function of the files it finds.\<close>

definition build_closure ::
  "build_env \<Rightarrow> string \<Rightarrow> worker_outcome \<Rightarrow> (py_exc + (LibraryMetaData option \<times> string)) \<Rightarrow>
   fs \<Rightarrow> build_result" where
  "build_closure env cache_path w found_meta files = get_libdoc_closure env cache_path files w found_meta"

definition is_write :: "effect \<Rightarrow> bool" where
  "is_write x = (case x of WriteText path text \<Rightarrow> True | _ \<Rightarrow> False)"

section \<open>Import entries\<close>

datatype FileChangeType = Created | Changed | Deleted

record FileEvent =
  event_uri :: string
  event_type :: FileChangeType

record TextDocument =
  document_uri :: string
  document_version :: "int option"

text \<open>
  URIs and paths are handled by \<^verbatim>\<open>Uri\<close>, \<^verbatim>\<open>pathlib\<close> and \<^verbatim>\<open>path_is_relative_to\<close>; the
  namespace of a resource document is computed by the documents cache. \<open>parent\<close> is
  \<^verbatim>\<open>Path(p).parent\<close>, \<open>resolve\<close> is \<^verbatim>\<open>Path(p).resolve()\<close>, both as strings.
\<close>

record watch_env =
  uri_scheme :: "string \<Rightarrow> string"
  uri_to_path :: "string \<Rightarrow> string"
  path_is_relative_to :: "string \<Rightarrow> string \<Rightarrow> bool"
  resolve :: "string \<Rightarrow> string"
  parent :: "string \<Rightarrow> string"
  exists_path :: "string \<Rightarrow> bool"
  samefile :: "string \<Rightarrow> string \<Rightarrow> bool"
  namespace_libdoc :: "TextDocument \<Rightarrow> py_exc + LibraryDoc"

text \<open>
  The entries of the three registries. \<open>references\<close> lists the sentinels of the
  \<^verbatim>\<open>WeakSet\<close> that are still alive; a file watcher is the list of globs it was registered
  with; the identity of the Python object is a number.
\<close>

record LibrariesEntry =
  l_id :: nat
  l_references :: "nat list"
  l_file_watchers :: "string list list"
  l_lib_doc :: "LibraryDoc option"
  l_ignore_reference :: bool

record ResourcesEntry =
  r_id :: nat
  r_references :: "nat list"
  r_file_watchers :: "string list list"
  r_document :: "TextDocument option"
  r_lib_doc :: "LibraryDoc option"

record VariablesEntry =
  v_id :: nat
  v_references :: "nat list"
  v_file_watchers :: "string list list"
  v_lib_doc :: "LibraryDoc option"

type_synonym LibrariesEntryKey = "string \<times> string list"
type_synonym ResourcesEntryKey = string
type_synonym VariablesEntryKey = "string \<times> string list"

datatype kind = Library | Resource | Variables

datatype entry_ref =
    LibraryRef LibrariesEntryKey
  | ResourceRef ResourcesEntryKey
  | VariablesRef VariablesEntryKey

text \<open>
  What the dispatcher does, in order: an entry loses its document and watchers, an
  entry is popped from its registry, a path cache is cleared, an event is emitted.
\<close>

datatype action =
    Invalidated entry_ref
  | Popped entry_ref
  | CacheCleared kind
  | Emitted kind "LibraryDoc list"

definition truthy :: "string option \<Rightarrow> bool" where
  "truthy s = (case s of None \<Rightarrow> False | Some t \<Rightarrow> t \<noteq> [])"

subsection \<open>\<^verbatim>\<open>_LibrariesEntry\<close>\<close>

definition l_is_valid :: "LibrariesEntry \<Rightarrow> bool" where
  "l_is_valid e = (l_lib_doc e \<noteq> None)"

text \<open>\<^verbatim>\<open>_invalidate\<close>: nothing to do when there is no document and no watcher.\<close>

definition l_invalidate :: "entry_ref \<Rightarrow> LibrariesEntry \<Rightarrow> LibrariesEntry \<times> action list" where
  "l_invalidate ref e =
     (if l_lib_doc e = None \<and> l_file_watchers e = [] then (e, [])
      else (e\<lparr>l_file_watchers := [], l_lib_doc := None\<rparr>, [Invalidated ref]))"

definition l_path_matches :: "watch_env \<Rightarrow> LibraryDoc \<Rightarrow> string \<Rightarrow> bool" where
  "l_path_matches env d path =
     ((case module_spec d of
         None \<Rightarrow> False
       | Some ms \<Rightarrow>
           (case spec_submodule_search_locations ms of
              None \<Rightarrow> False
            | Some locs \<Rightarrow> list_ex (\<lambda>l. path_is_relative_to env path (resolve env l)) locs))
      \<or> (case module_spec d of
            None \<Rightarrow> False
          | Some ms \<Rightarrow>
              (case spec_origin ms of
                 None \<Rightarrow> False
               | Some orig \<Rightarrow> path_is_relative_to env path (parent env orig)))
      \<or> (case source d of
            None \<Rightarrow> False
          | Some s \<Rightarrow> s \<noteq> [] \<and> path_is_relative_to env path (parent env s))
      \<or> (module_spec d = None \<and> \<not> truthy (source d)
          \<and> (case python_path d of
                None \<Rightarrow> False
              | Some pp \<Rightarrow> list_ex (\<lambda>p. path_is_relative_to env path (resolve env p)) pp)))"

fun l_first_match :: "watch_env \<Rightarrow> LibraryDoc \<Rightarrow> FileEvent list \<Rightarrow> FileChangeType option" where
  "l_first_match env d [] = None"
| "l_first_match env d (c # cs) =
     (if uri_scheme env (event_uri c) \<noteq> ''file'' then l_first_match env d cs
      else if l_path_matches env d (uri_to_path env (event_uri c)) then Some (event_type c)
      else l_first_match env d cs)"

definition l_check_file_changed ::
  "watch_env \<Rightarrow> entry_ref \<Rightarrow> FileEvent list \<Rightarrow> LibrariesEntry \<Rightarrow>
   LibrariesEntry \<times> FileChangeType option \<times> action list" where
  "l_check_file_changed env ref changes e =
     (case l_lib_doc e of
        None \<Rightarrow> (e, None, [])
      | Some d \<Rightarrow>
          (case l_first_match env d changes of
             None \<Rightarrow> (e, None, [])
           | Some t \<Rightarrow> (case l_invalidate ref e of (e', acts) \<Rightarrow> (e', Some t, acts))))"

definition glob_under :: "string \<Rightarrow> string" where
  "glob_under dir = dir @ ''/**''"

text \<open>The watchers \<^verbatim>\<open>_update\<close> registers once the document is there.\<close>

definition l_watchers :: "watch_env \<Rightarrow> LibraryDoc \<Rightarrow> string list list" where
  "l_watchers env d =
     (let source_or_origin =
            (case source d of
               Some s \<Rightarrow> Some s
             | None \<Rightarrow> (case module_spec d of Some ms \<Rightarrow> spec_origin ms | None \<Rightarrow> None));
          file_part =
            (case source_or_origin of
               Some p \<Rightarrow> [[glob_under (parent env p)]]
             | None \<Rightarrow>
                 (case python_path d of
                    Some pp \<Rightarrow> [map glob_under pp]
                  | None \<Rightarrow> []))
      in case module_spec d of
           None \<Rightarrow> file_part
         | Some ms \<Rightarrow>
             (case spec_submodule_search_locations ms of
                None \<Rightarrow> file_part
              | Some locs \<Rightarrow>
                  [map (\<lambda>l. glob_under (resolve env l)) locs]
                  @ (case source_or_origin of
                       None \<Rightarrow> file_part
                     | Some p \<Rightarrow>
                         if parent env p \<in> set (map (resolve env) locs) then [] else file_part)))"

text \<open>
  The result of a request to an entry: what the caller gets (\<open>None\<close> when the request
  never returns), the entry and the files afterwards, the effects of the build, and
  whether the build closure was called.
\<close>

record 'e request_result =
  returned :: "(py_exc + LibraryDoc) option"
  entry_after :: 'e
  request_files :: fs
  request_effects :: "effect list"
  build_called :: bool

text \<open>
  \<^verbatim>\<open>get_libdoc\<close> with \<^verbatim>\<open>_update\<close>: \<open>coroutine\<close> is the build closure the entry was created
  with. The assignment to \<^verbatim>\<open>_lib_doc\<close> happens only when the closure returns.
\<close>

definition l_get_libdoc ::
  "watch_env \<Rightarrow> (fs \<Rightarrow> build_result) \<Rightarrow> fs \<Rightarrow> LibrariesEntry \<Rightarrow> LibrariesEntry request_result" where
  "l_get_libdoc env coroutine files e =
     (case l_lib_doc e of
        Some d \<Rightarrow>
          \<lparr> returned = Some (Inr d), entry_after = e, request_files = files,
            request_effects = [], build_called = False \<rparr>
      | None \<Rightarrow>
          (let b = coroutine files in
           case outcome b of
             Some (Inr d) \<Rightarrow>
               \<lparr> returned = Some (Inr d),
                 entry_after = e\<lparr>l_lib_doc := Some d,
                                 l_file_watchers := l_file_watchers e @ l_watchers env d\<rparr>,
                 request_files = files_after b, request_effects = effects b, build_called = True \<rparr>
           | r \<Rightarrow>
               \<lparr> returned = r, entry_after = e, request_files = files_after b,
                 request_effects = effects b, build_called = True \<rparr>))"

subsection \<open>\<^verbatim>\<open>_VariablesEntry\<close>\<close>

definition v_is_valid :: "VariablesEntry \<Rightarrow> bool" where
  "v_is_valid e = (v_lib_doc e \<noteq> None)"

definition v_invalidate :: "entry_ref \<Rightarrow> VariablesEntry \<Rightarrow> VariablesEntry \<times> action list" where
  "v_invalidate ref e =
     (if v_lib_doc e = None \<and> v_file_watchers e = [] then (e, [])
      else (e\<lparr>v_file_watchers := [], v_lib_doc := None\<rparr>, [Invalidated ref]))"

definition v_path_matches :: "watch_env \<Rightarrow> LibraryDoc \<Rightarrow> string \<Rightarrow> bool" where
  "v_path_matches env d path =
     (case source d of
        None \<Rightarrow> False
      | Some s \<Rightarrow> s \<noteq> [] \<and> exists_path env path \<and> samefile env path s)"

fun v_first_match :: "watch_env \<Rightarrow> LibraryDoc \<Rightarrow> FileEvent list \<Rightarrow> FileChangeType option" where
  "v_first_match env d [] = None"
| "v_first_match env d (c # cs) =
     (if uri_scheme env (event_uri c) \<noteq> ''file'' then v_first_match env d cs
      else if v_path_matches env d (uri_to_path env (event_uri c)) then Some (event_type c)
      else v_first_match env d cs)"

definition v_check_file_changed ::
  "watch_env \<Rightarrow> entry_ref \<Rightarrow> FileEvent list \<Rightarrow> VariablesEntry \<Rightarrow>
   VariablesEntry \<times> FileChangeType option \<times> action list" where
  "v_check_file_changed env ref changes e =
     (case v_lib_doc e of
        None \<Rightarrow> (e, None, [])
      | Some d \<Rightarrow>
          (case v_first_match env d changes of
             None \<Rightarrow> (e, None, [])
           | Some t \<Rightarrow> (case v_invalidate ref e of (e', acts) \<Rightarrow> (e', Some t, acts))))"

text \<open>\<^verbatim>\<open>str(self._lib_doc.source)\<close> is \<^verbatim>\<open>'None'\<close> when there is no source.\<close>

definition v_watchers :: "LibraryDoc \<Rightarrow> string list list" where
  "v_watchers d = [[case source d of Some s \<Rightarrow> s | None \<Rightarrow> ''None'']]"

definition v_get_libdoc ::
  "(fs \<Rightarrow> build_result) \<Rightarrow> fs \<Rightarrow> VariablesEntry \<Rightarrow> VariablesEntry request_result" where
  "v_get_libdoc coroutine files e =
     (case v_lib_doc e of
        Some d \<Rightarrow>
          \<lparr> returned = Some (Inr d), entry_after = e, request_files = files,
            request_effects = [], build_called = False \<rparr>
      | None \<Rightarrow>
          (let b = coroutine files in
           case outcome b of
             Some (Inr d) \<Rightarrow>
               \<lparr> returned = Some (Inr d),
                 entry_after = e\<lparr>v_lib_doc := Some d,
                                 v_file_watchers := v_file_watchers e @ v_watchers d\<rparr>,
                 request_files = files_after b, request_effects = effects b, build_called = True \<rparr>
           | r \<Rightarrow>
               \<lparr> returned = r, entry_after = e, request_files = files_after b,
                 request_effects = effects b, build_called = True \<rparr>))"

subsection \<open>\<^verbatim>\<open>_ResourcesEntry\<close>\<close>

definition r_is_valid :: "ResourcesEntry \<Rightarrow> bool" where
  "r_is_valid e = (r_document e \<noteq> None)"

definition r_invalidate :: "entry_ref \<Rightarrow> ResourcesEntry \<Rightarrow> ResourcesEntry \<times> action list" where
  "r_invalidate ref e =
     (if r_document e = None \<and> r_file_watchers e = [] then (e, [])
      else (e\<lparr>r_file_watchers := [], r_document := None, r_lib_doc := None\<rparr>, [Invalidated ref]))"

definition r_path_matches :: "watch_env \<Rightarrow> ResourcesEntry \<Rightarrow> string \<Rightarrow> bool" where
  "r_path_matches env e path =
     (case r_document e of
        Some doc \<Rightarrow> resolve env path = resolve env (uri_to_path env (document_uri doc))
      | None \<Rightarrow> True)"

fun r_first_match :: "watch_env \<Rightarrow> ResourcesEntry \<Rightarrow> FileEvent list \<Rightarrow> FileChangeType option" where
  "r_first_match env e [] = None"
| "r_first_match env e (c # cs) =
     (if uri_scheme env (event_uri c) \<noteq> ''file'' then r_first_match env e cs
      else if r_path_matches env e (uri_to_path env (event_uri c)) then Some (event_type c)
      else r_first_match env e cs)"

definition r_check_file_changed ::
  "watch_env \<Rightarrow> entry_ref \<Rightarrow> FileEvent list \<Rightarrow> ResourcesEntry \<Rightarrow>
   ResourcesEntry \<times> FileChangeType option \<times> action list" where
  "r_check_file_changed env ref changes e =
     (case r_first_match env e changes of
        None \<Rightarrow> (e, None, [])
      | Some t \<Rightarrow> (case r_invalidate ref e of (e', acts) \<Rightarrow> (e', Some t, acts)))"

text \<open>
  \<^verbatim>\<open>get_libdoc\<close> of an entry that has its document (the case in which the dispatchers
  call it): the stored document, or the one of the namespace, which is then stored.
\<close>

definition r_get_libdoc ::
  "watch_env \<Rightarrow> TextDocument \<Rightarrow> ResourcesEntry \<Rightarrow> (py_exc + LibraryDoc) \<times> ResourcesEntry" where
  "r_get_libdoc env doc e =
     (case r_lib_doc e of
        Some d \<Rightarrow> (Inr d, e)
      | None \<Rightarrow>
          (case namespace_libdoc env doc of
             Inl x \<Rightarrow> (Inl x, e)
           | Inr d \<Rightarrow> (Inr d, e\<lparr>r_lib_doc := Some d\<rparr>)))"

section \<open>The registries and the change dispatcher\<close>

text \<open>
  The three \<^verbatim>\<open>OrderedDict\<close> registries are association lists in insertion order. The
  debounce state is the time at which the running timer fires, if one is running, and
  the documents waiting for it; times are in milliseconds.
\<close>

record ImportsManager =
  m_libaries :: "(LibrariesEntryKey \<times> LibrariesEntry) list"
  m_resources :: "(ResourcesEntryKey \<times> ResourcesEntry) list"
  m_variables :: "(VariablesEntryKey \<times> VariablesEntry) list"
  resource_document_changed_timer :: "nat option"
  resource_document_changed_documents :: "TextDocument list"

definition pop_key :: "'k \<Rightarrow> ('k \<times> 'e) list \<Rightarrow> ('k \<times> 'e) list" where
  "pop_key k reg = filter (\<lambda>ke. fst ke \<noteq> k) reg"

record dispatch_result =
  raised :: "py_exc option"
  manager_after :: ImportsManager
  actions :: "action list"

subsection \<open>Removing an entry\<close>

text \<open>
  \<^verbatim>\<open>__remove_library_entry(entry_key, entry, now)\<close>. The outer test reads
  \<^verbatim>\<open>len(entry.references) == 0 or now\<close>, the inner one, under the lock,
  \<^verbatim>\<open>len(entry.references) == 0\<close>. The comparison \<^verbatim>\<open>e1 == entry\<close> is object identity.
\<close>

definition remove_library_entry ::
  "ImportsManager \<Rightarrow> LibrariesEntryKey \<Rightarrow> LibrariesEntry \<Rightarrow> bool \<Rightarrow> ImportsManager \<times> action list" where
  "remove_library_entry mgr entry_key entry now =
     (case (if l_references entry = [] \<or> now then
              (if l_references entry = [] then
                 (case map_of (m_libaries mgr) entry_key of
                    None \<Rightarrow> (mgr, [])
                  | Some e1 \<Rightarrow>
                      if l_id e1 = l_id entry then
                        (mgr\<lparr>m_libaries := pop_key entry_key (m_libaries mgr)\<rparr>,
                         Popped (LibraryRef entry_key) # snd (l_invalidate (LibraryRef entry_key) entry))
                      else (mgr, []))
               else (mgr, []))
            else (mgr, [])) of
        (mgr', acts) \<Rightarrow> (mgr', acts @ [CacheCleared Library]))"

text \<open>
  \<^verbatim>\<open>__remove_resource_entry\<close>: here the inner test is
  \<^verbatim>\<open>len(entry.references) == 0 or now\<close> as well.
\<close>

definition remove_resource_entry ::
  "ImportsManager \<Rightarrow> ResourcesEntryKey \<Rightarrow> ResourcesEntry \<Rightarrow> bool \<Rightarrow> ImportsManager \<times> action list" where
  "remove_resource_entry mgr entry_key entry now =
     (case (if r_references entry = [] \<or> now then
              (if r_references entry = [] \<or> now then
                 (case map_of (m_resources mgr) entry_key of
                    None \<Rightarrow> (mgr, [])
                  | Some e1 \<Rightarrow>
                      if r_id e1 = r_id entry then
                        (mgr\<lparr>m_resources := pop_key entry_key (m_resources mgr)\<rparr>,
                         Popped (ResourceRef entry_key) # snd (r_invalidate (ResourceRef entry_key) entry))
                      else (mgr, []))
               else (mgr, []))
            else (mgr, [])) of
        (mgr', acts) \<Rightarrow> (mgr', acts @ [CacheCleared Resource]))"

text \<open>\<^verbatim>\<open>__remove_variables_entry\<close>: the inner test is \<^verbatim>\<open>len(entry.references) == 0\<close>.\<close>

definition remove_variables_entry ::
  "ImportsManager \<Rightarrow> VariablesEntryKey \<Rightarrow> VariablesEntry \<Rightarrow> bool \<Rightarrow> ImportsManager \<times> action list" where
  "remove_variables_entry mgr entry_key entry now =
     (case (if v_references entry = [] \<or> now then
              (if v_references entry = [] then
                 (case map_of (m_variables mgr) entry_key of
                    None \<Rightarrow> (mgr, [])
                  | Some e1 \<Rightarrow>
                      if v_id e1 = v_id entry then
                        (mgr\<lparr>m_variables := pop_key entry_key (m_variables mgr)\<rparr>,
                         Popped (VariablesRef entry_key) # snd (v_invalidate (VariablesRef entry_key) entry))
                      else (mgr, []))
               else (mgr, []))
            else (mgr, [])) of
        (mgr', acts) \<Rightarrow> (mgr', acts @ [CacheCleared Variables]))"

subsection \<open>\<^verbatim>\<open>did_change_watched_files\<close>: the three scans\<close>

text \<open>
  Each scan visits the entries in order. For a valid entry, \<^verbatim>\<open>get_libdoc()\<close> returns the
  document the entry holds (for a library or variables entry without running the build,
  see \<open>l_get_libdoc\<close>); then \<^verbatim>\<open>check_file_changed\<close> decides and invalidates.
\<close>

fun scan_libraries ::
  "watch_env \<Rightarrow> FileEvent list \<Rightarrow> (LibrariesEntryKey \<times> LibrariesEntry) list \<Rightarrow>
   (LibrariesEntryKey \<times> LibrariesEntry) list
   \<times> (LibrariesEntryKey \<times> FileChangeType \<times> LibraryDoc option) list \<times> action list" where
  "scan_libraries env changes [] = ([], [], [])"
| "scan_libraries env changes ((k, e) # rest) =
     (let lib_doc = l_lib_doc e in
      case l_check_file_changed env (LibraryRef k) changes e of
        (e', result, acts) \<Rightarrow>
          (case scan_libraries env changes rest of
             (rest', changed, acts') \<Rightarrow>
               ((k, e') # rest',
                (case result of None \<Rightarrow> changed | Some t \<Rightarrow> (k, t, lib_doc) # changed),
                acts @ acts')))"

fun scan_variables ::
  "watch_env \<Rightarrow> FileEvent list \<Rightarrow> (VariablesEntryKey \<times> VariablesEntry) list \<Rightarrow>
   (VariablesEntryKey \<times> VariablesEntry) list
   \<times> (VariablesEntryKey \<times> FileChangeType \<times> LibraryDoc option) list \<times> action list" where
  "scan_variables env changes [] = ([], [], [])"
| "scan_variables env changes ((k, e) # rest) =
     (let lib_doc = v_lib_doc e in
      case v_check_file_changed env (VariablesRef k) changes e of
        (e', result, acts) \<Rightarrow>
          (case scan_variables env changes rest of
             (rest', changed, acts') \<Rightarrow>
               ((k, e') # rest',
                (case result of None \<Rightarrow> changed | Some t \<Rightarrow> (k, t, lib_doc) # changed),
                acts @ acts')))"

text \<open>
  For a resource the namespace may have to be computed, which can raise; the exception
  leaves \<^verbatim>\<open>did_change_watched_files\<close>, and the entries after that one are not visited.
\<close>

definition r_held :: "watch_env \<Rightarrow> ResourcesEntry \<Rightarrow> (py_exc + LibraryDoc option) \<times> ResourcesEntry" where
  "r_held env e =
     (case r_document e of
        None \<Rightarrow> (Inr None, e)
      | Some doc \<Rightarrow>
          (case r_get_libdoc env doc e of
             (Inl x, e1) \<Rightarrow> (Inl x, e1)
           | (Inr d, e1) \<Rightarrow> (Inr (Some d), e1)))"

fun scan_resources ::
  "watch_env \<Rightarrow> FileEvent list \<Rightarrow> (ResourcesEntryKey \<times> ResourcesEntry) list \<Rightarrow>
   (ResourcesEntryKey \<times> ResourcesEntry) list
   \<times> (ResourcesEntryKey \<times> FileChangeType \<times> LibraryDoc option) list \<times> action list
   \<times> py_exc option" where
  "scan_resources env changes [] = ([], [], [], None)"
| "scan_resources env changes ((k, e) # rest) =
     (case r_held env e of
        (Inl x, e1) \<Rightarrow> ((k, e1) # rest, [], [], Some x)
      | (Inr lib_doc, e1) \<Rightarrow>
          (case r_check_file_changed env (ResourceRef k) changes e1 of
             (e2, result, acts) \<Rightarrow>
               (case scan_resources env changes rest of
                  (rest', changed, acts', x) \<Rightarrow>
                    ((k, e2) # rest',
                     (case result of None \<Rightarrow> changed | Some t \<Rightarrow> (k, t, lib_doc) # changed),
                     acts @ acts', x))))"

subsection \<open>\<^verbatim>\<open>did_change_watched_files\<close>: removals and events\<close>

definition changed_docs :: "('k \<times> FileChangeType \<times> LibraryDoc option) list \<Rightarrow> LibraryDoc list" where
  "changed_docs changed = List.map_filter (\<lambda>c. snd (snd c)) changed"

fun remove_deleted_libraries ::
  "ImportsManager \<Rightarrow> (LibrariesEntryKey \<times> FileChangeType \<times> LibraryDoc option) list \<Rightarrow>
   py_exc option \<times> ImportsManager \<times> action list" where
  "remove_deleted_libraries mgr [] = (None, mgr, [])"
| "remove_deleted_libraries mgr ((l, t, d) # rest) =
     (if t = Deleted then
        (case map_of (m_libaries mgr) l of
           None \<Rightarrow> (Some (KeyError ''_libaries''), mgr, [])
         | Some e \<Rightarrow>
             (case remove_library_entry mgr l e True of
                (mgr1, acts) \<Rightarrow>
                  (case remove_deleted_libraries mgr1 rest of
                     (x, mgr2, acts') \<Rightarrow> (x, mgr2, acts @ acts'))))
      else remove_deleted_libraries mgr rest)"

fun remove_deleted_resources ::
  "ImportsManager \<Rightarrow> (ResourcesEntryKey \<times> FileChangeType \<times> LibraryDoc option) list \<Rightarrow>
   py_exc option \<times> ImportsManager \<times> action list" where
  "remove_deleted_resources mgr [] = (None, mgr, [])"
| "remove_deleted_resources mgr ((r, t, d) # rest) =
     (if t = Deleted then
        (case map_of (m_resources mgr) r of
           None \<Rightarrow> (Some (KeyError ''_resources''), mgr, [])
         | Some e \<Rightarrow>
             (case remove_resource_entry mgr r e True of
                (mgr1, acts) \<Rightarrow>
                  (case remove_deleted_resources mgr1 rest of
                     (x, mgr2, acts') \<Rightarrow> (x, mgr2, acts @ acts'))))
      else remove_deleted_resources mgr rest)"

fun remove_deleted_variables ::
  "ImportsManager \<Rightarrow> (VariablesEntryKey \<times> FileChangeType \<times> LibraryDoc option) list \<Rightarrow>
   py_exc option \<times> ImportsManager \<times> action list" where
  "remove_deleted_variables mgr [] = (None, mgr, [])"
| "remove_deleted_variables mgr ((v, t, d) # rest) =
     (if t = Deleted then
        (case map_of (m_variables mgr) v of
           None \<Rightarrow> (Some (KeyError ''_variables''), mgr, [])
         | Some e \<Rightarrow>
             (case remove_variables_entry mgr v e True of
                (mgr1, acts) \<Rightarrow>
                  (case remove_deleted_variables mgr1 rest of
                     (x, mgr2, acts') \<Rightarrow> (x, mgr2, acts @ acts'))))
      else remove_deleted_variables mgr rest)"

text \<open>The three blocks \<^verbatim>\<open>if libraries_changed: ...\<close> at the end of the method.\<close>

definition announce_libraries ::
  "ImportsManager \<Rightarrow> (LibrariesEntryKey \<times> FileChangeType \<times> LibraryDoc option) list \<Rightarrow>
   py_exc option \<times> ImportsManager \<times> action list" where
  "announce_libraries mgr changed =
     (if changed = [] then (None, mgr, [])
      else
        (case remove_deleted_libraries mgr changed of
           (Some x, mgr', acts) \<Rightarrow> (Some x, mgr', acts)
         | (None, mgr', acts) \<Rightarrow> (None, mgr', acts @ [Emitted Library (changed_docs changed)])))"

definition announce_resources ::
  "ImportsManager \<Rightarrow> (ResourcesEntryKey \<times> FileChangeType \<times> LibraryDoc option) list \<Rightarrow>
   py_exc option \<times> ImportsManager \<times> action list" where
  "announce_resources mgr changed =
     (if changed = [] then (None, mgr, [])
      else
        (case remove_deleted_resources mgr changed of
           (Some x, mgr', acts) \<Rightarrow> (Some x, mgr', acts)
         | (None, mgr', acts) \<Rightarrow> (None, mgr', acts @ [Emitted Resource (changed_docs changed)])))"

definition announce_variables ::
  "ImportsManager \<Rightarrow> (VariablesEntryKey \<times> FileChangeType \<times> LibraryDoc option) list \<Rightarrow>
   py_exc option \<times> ImportsManager \<times> action list" where
  "announce_variables mgr changed =
     (if changed = [] then (None, mgr, [])
      else
        (case remove_deleted_variables mgr changed of
           (Some x, mgr', acts) \<Rightarrow> (Some x, mgr', acts)
         | (None, mgr', acts) \<Rightarrow> (None, mgr', acts @ [Emitted Variables (changed_docs changed)])))"

definition announce_all ::
  "ImportsManager \<Rightarrow>
   (LibrariesEntryKey \<times> FileChangeType \<times> LibraryDoc option) list \<Rightarrow>
   (ResourcesEntryKey \<times> FileChangeType \<times> LibraryDoc option) list \<Rightarrow>
   (VariablesEntryKey \<times> FileChangeType \<times> LibraryDoc option) list \<Rightarrow>
   py_exc option \<times> ImportsManager \<times> action list" where
  "announce_all mgr lchanged rchanged vchanged =
     (case announce_libraries mgr lchanged of
        (Some x, mgr1, a1) \<Rightarrow> (Some x, mgr1, a1)
      | (None, mgr1, a1) \<Rightarrow>
          (case announce_resources mgr1 rchanged of
             (Some x, mgr2, a2) \<Rightarrow> (Some x, mgr2, a1 @ a2)
           | (None, mgr2, a2) \<Rightarrow>
               (case announce_variables mgr2 vchanged of
                  (x, mgr3, a3) \<Rightarrow> (x, mgr3, a1 @ a2 @ a3))))"

definition did_change_watched_files ::
  "watch_env \<Rightarrow> ImportsManager \<Rightarrow> FileEvent list \<Rightarrow> dispatch_result" where
  "did_change_watched_files env mgr changes =
     (case scan_libraries env changes (m_libaries mgr) of
        (libs, lchanged, a1) \<Rightarrow>
          (case scan_resources env changes (m_resources mgr) of
             (ress, rchanged, a2, Some x) \<Rightarrow>
               \<lparr> raised = Some x,
                 manager_after = mgr\<lparr>m_libaries := libs, m_resources := ress\<rparr>,
                 actions = a1 @ a2 \<rparr>
           | (ress, rchanged, a2, None) \<Rightarrow>
               (case scan_variables env changes (m_variables mgr) of
                  (vars, vchanged, a3) \<Rightarrow>
                    (case announce_all
                            (mgr\<lparr>m_libaries := libs, m_resources := ress, m_variables := vars\<rparr>)
                            lchanged rchanged vchanged of
                       (x, mgr', a4) \<Rightarrow>
                         \<lparr> raised = x, manager_after = mgr', actions = a1 @ a2 @ a3 @ a4 \<rparr>))))"

subsection \<open>What a batch of events affects\<close>










section \<open>Debouncing changes of open resource documents\<close>














section \<open>Resolving variables files: \<^verbatim>\<open>find_variables\<close>\<close>

text \<open>
  Modelled from the spec: \<^verbatim>\<open>SimpleLRUCache\<close> (\<^verbatim>\<open>robotcode.core.utils.caching\<close>) is not among the
  sources. Results are memoized by the tuple of the arguments in a bounded LRU of 256
  entries, most recently used first; only results are stored, an exception is not. The
  last component tells whether the function was called.
\<close>

definition cache_max_items :: nat where
  "cache_max_items = 256"

definition cache_get ::
  "('k \<times> 'v) list \<Rightarrow> 'k \<Rightarrow> (py_exc + 'v) \<Rightarrow> (py_exc + 'v) \<times> ('k \<times> 'v) list \<times> bool" where
  "cache_get cache key computed =
     (case map_of cache key of
        Some v \<Rightarrow> (Inr v, (key, v) # pop_key key cache, False)
      | None \<Rightarrow>
          (case computed of
             Inl e \<Rightarrow> (Inl e, cache, True)
           | Inr v \<Rightarrow> (Inr v, take cache_max_items ((key, v) # cache), True)))"

text \<open>
  What \<^verbatim>\<open>__find_variables\<close> calls: \<^verbatim>\<open>contains_variable(name, "$@&%")\<close>, the
  \<^verbatim>\<open>find_variables\<close> of \<^verbatim>\<open>library_doc\<close>, \<^verbatim>\<open>find_file_ex\<close>, \<^verbatim>\<open>is_variables_by_path\<close>, the
  major number of the Robot Framework version and the command line variables.
\<close>

record find_env =
  folder :: string
  contains_variable :: "string \<Rightarrow> bool"
  library_doc_find_variables ::
    "string \<Rightarrow> string \<Rightarrow> string \<Rightarrow> variables option \<Rightarrow> variables option \<Rightarrow> py_exc + string"
  find_file_ex :: "string \<Rightarrow> string \<Rightarrow> string \<Rightarrow> py_exc + string"
  variables_by_path :: "string \<Rightarrow> bool"
  robot_version_major :: nat
  resolvable_command_line_variables :: variables

definition private_find_variables ::
  "find_env \<Rightarrow> string \<Rightarrow> string \<Rightarrow> variables option \<Rightarrow> bool \<Rightarrow> bool \<Rightarrow> py_exc + string" where
  "private_find_variables env nm base_dir vars resolve_variables resolve_command_line_vars =
     (if resolve_variables \<and> contains_variable env nm then
        library_doc_find_variables env nm (folder env) base_dir
          (if resolve_command_line_vars then Some (resolvable_command_line_variables env) else None)
          vars
      else if 5 \<le> robot_version_major env then
        (if variables_by_path env nm then find_file_ex env nm base_dir ''Variables'' else Inr nm)
      else find_file_ex env nm base_dir ''Variables'')"

text \<open>
  \<^verbatim>\<open>find_variables\<close> hands four positional arguments to the cache:
  \<^verbatim>\<open>name, base_dir, variables, resolve_command_line_vars\<close>. They are the key, and on a miss
  they are the arguments of \<^verbatim>\<open>__find_variables\<close>, whose fourth parameter is
  \<^verbatim>\<open>resolve_variables\<close> and whose fifth keeps its default \<^verbatim>\<open>True\<close>.
\<close>

type_synonym variables_files_cache =
  "((string \<times> string \<times> variables option \<times> bool) \<times> string) list"

definition find_variables ::
  "find_env \<Rightarrow> variables_files_cache \<Rightarrow> string \<Rightarrow> string \<Rightarrow> variables option \<Rightarrow> bool \<Rightarrow> bool \<Rightarrow>
   (py_exc + string) \<times> variables_files_cache \<times> bool" where
  "find_variables env cache nm base_dir vars resolve_variables resolve_command_line_vars =
     cache_get cache (nm, base_dir, vars, resolve_command_line_vars)
       (private_find_variables env nm base_dir vars resolve_command_line_vars True)"

section \<open>Example inputs\<close>

text \<open>Concrete values on which the theorems below are evaluated.\<close>

definition meta_by_path_example :: LibraryMetaData where
  "meta_by_path_example =
     \<lparr> meta_version = ''0.68.2'', name = Some ''My'', member_name = None,
       origin = Some ''C:/some dir/My.py'', submodule_search_locations = None, by_path = True,
       mtimes = Some [''C:/some dir/My.py'' \<mapsto> 1700000000000000000] \<rparr>"

definition meta_module_example :: LibraryMetaData where
  "meta_module_example =
     \<lparr> meta_version = ''0.68.2'', name = Some ''robot.libraries.Collections'',
       member_name = Some ''Collections'',
       origin = Some ''/usr/lib/python3/robot/libraries/Collections.py'',
       submodule_search_locations = None, by_path = False,
       mtimes = Some [''/usr/lib/python3/robot/libraries/Collections.py'' \<mapsto> 1700000000000000000] \<rparr>"

text \<open>
  A workspace on a POSIX file system: \<^verbatim>\<open>file://\<close> URIs, paths already resolved, a path is
  relative to a directory when it is the directory or lies below it.
\<close>

definition is_below :: "string \<Rightarrow> string \<Rightarrow> bool" where
  "is_below path dir = (path = dir \<or> take (Suc (length dir)) path = dir @ ''/'')"

definition doc_example :: "string \<Rightarrow> string \<Rightarrow> LibraryDoc" where
  "doc_example nm src =
     \<lparr> doc_name = nm, source = Some src, module_spec = None, python_path = None, stdout = None \<rparr>"

definition watch_example :: watch_env where
  "watch_example =
     \<lparr> uri_scheme = (\<lambda>u. if take 7 u = ''file://'' then ''file'' else ''untitled''),
       uri_to_path = drop 7,
       path_is_relative_to = is_below,
       resolve = (\<lambda>p. p),
       parent = posix_parent_str,
       exists_path = (\<lambda>p. True),
       samefile = (\<lambda>p q. p = q),
       namespace_libdoc = (\<lambda>d. Inr (doc_example ''namespace'' (drop 7 (document_uri d)))) \<rparr>"

definition library_entry_example :: LibrariesEntry where
  "library_entry_example =
     \<lparr> l_id = 1, l_references = [7], l_file_watchers = [[''/w/lib/**'']],
       l_lib_doc = Some (doc_example ''My'' ''/w/lib/My.py''), l_ignore_reference = False \<rparr>"

definition resource_entry_example :: ResourcesEntry where
  "resource_entry_example =
     \<lparr> r_id = 2, r_references = [7, 8], r_file_watchers = [[''/w/a.resource'']],
       r_document = Some \<lparr> document_uri = ''file:///w/a.resource'', document_version = None \<rparr>,
       r_lib_doc = Some (doc_example ''a'' ''/w/a.resource'') \<rparr>"

definition variables_entry_example :: VariablesEntry where
  "variables_entry_example =
     \<lparr> v_id = 3, v_references = [7], v_file_watchers = [[''/w/vars.py'']],
       v_lib_doc = Some (doc_example ''vars'' ''/w/vars.py'') \<rparr>"

definition manager_example :: ImportsManager where
  "manager_example =
     \<lparr> m_libaries = [((''/w/lib/My.py'', []), library_entry_example)],
       m_resources = [(''/w/a.resource'', resource_entry_example)],
       m_variables = [((''/w/vars.py'', []), variables_entry_example)],
       resource_document_changed_timer = None,
       resource_document_changed_documents = [] \<rparr>"

definition deleted_events_example :: "FileEvent list" where
  "deleted_events_example =
     [\<lparr> event_uri = ''file:///w/lib/My.py'', event_type = Deleted \<rparr>,
      \<lparr> event_uri = ''file:///w/a.resource'', event_type = Deleted \<rparr>]"

definition find_example :: find_env where
  "find_example =
     \<lparr> folder = ''/w'',
       contains_variable = (\<lambda>s. CHR ''$'' \<in> set s),
       library_doc_find_variables = (\<lambda>nm fld base_dir clv vars. Inr ''/w/data/vars.py''),
       find_file_ex = (\<lambda>nm base_dir file_type. Inr (base_dir @ ''/'' @ nm)),
       variables_by_path = (\<lambda>s. True),
       robot_version_major = 6,
       resolvable_command_line_variables = [(''${DIR}'', ''data'')] \<rparr>"

text \<open>
  A build environment with toy serialisers: a meta is written as its version, a document
  as its name, and the readers accept exactly the texts of \<open>meta_module_example\<close> and
  of the documents so written. The outcomes of the writes are a parameter.
\<close>

definition build_example :: "(string \<Rightarrow> write_outcome) \<Rightarrow> build_env" where
  "build_example wo =
     \<lparr> pathlib_of = posix,
       lib_doc_cache_path = ''/w/.robotcode_cache/3.11.4/6.1/libdoc'',
       variables_doc_cache_path = ''/w/.robotcode_cache/3.11.4/6.1/variables'',
       from_json_meta =
         (\<lambda>text. if text = ''meta:0.68.2'' then Inr meta_module_example
                 else Inl (ValueError ''invalid json'')),
       from_json_doc =
         (\<lambda>text. if take 5 text = ''spec:''
                 then Inr (doc_example (drop 5 text) ''/usr/lib/python3/robot/libraries/Collections.py'')
                 else Inl (ValueError ''invalid json'')),
       as_json_meta = (\<lambda>m. Inr (''meta:'' @ meta_version m)),
       as_json_doc = (\<lambda>d. Inr (''spec:'' @ doc_name d)),
       mkdir_parents = (\<lambda>dir. None),
       write_outcome_of = wo \<rparr>"

definition meta_file_example :: string where
  "meta_file_example =
     ''/w/.robotcode_cache/3.11.4/6.1/libdoc/robot/libraries/Collections.Collections.meta.json''"

definition spec_file_example :: string where
  "spec_file_example =
     ''/w/.robotcode_cache/3.11.4/6.1/libdoc/robot/libraries/Collections.Collections.spec.json''"

definition collections_doc :: LibraryDoc where
  "collections_doc = doc_example ''Collections'' ''/usr/lib/python3/robot/libraries/Collections.py''"

definition found_collections :: "py_exc + (LibraryMetaData option \<times> string)" where
  "found_collections = Inr (Some meta_module_example, ''robot.libraries.Collections'')"

definition write_open_fails :: "string \<Rightarrow> write_outcome" where
  "write_open_fails p =
     (if p = spec_file_example then OpenFails (OSError ''Permission denied'') else WriteOk)"

definition write_torn :: "string \<Rightarrow> write_outcome" where
  "write_torn p =
     (if p = spec_file_example then WriteFails (OSError ''No space left on device'') 4 else WriteOk)"

definition no_files :: fs where
  "no_files p = Absent"

definition stale_files :: fs where
  "stale_files p = (if p = spec_file_example then Content ''spec:Old'' else Absent)"

text \<open>
  A fingerprinting environment: one module, \<^verbatim>\<open>robot.libraries.Collections\<close>; every path
  exists; a pattern matches a text it equals, or whose beginning it equals up to a final
  star. The patterns and the outcome of \<^verbatim>\<open>stat\<close> are parameters.
\<close>

definition glob_example :: "string \<Rightarrow> string \<Rightarrow> bool" where
  "glob_example p s =
     (if p \<noteq> [] \<and> last p = CHR ''*'' then take (length p - 1) s = butlast p else p = s)"

definition menv_example :: "string list \<Rightarrow> (string \<Rightarrow> py_exc + int) \<Rightarrow> meta_env" where
  "menv_example patterns stat =
     \<lparr> version = ''0.68.2'',
       paths = posix,
       is_library_by_path = (\<lambda>s. CHR ''/'' \<in> set s),
       is_variables_by_path = (\<lambda>s. CHR ''/'' \<in> set s),
       path_exists = (\<lambda>p. True),
       get_module_spec =
         (\<lambda>n. if n = ''robot.libraries.Collections''
              then Inr (Some \<lparr> spec_name = Some ''robot.libraries.Collections'',
                               spec_member_name = Some ''Collections'',
                               spec_origin = Some ''/usr/lib/python3/robot/libraries/Collections.py'',
                               spec_submodule_search_locations = None \<rparr>)
              else Inr None),
       st_mtime_ns = stat,
       iter_files = (\<lambda>loc. Inr []),
       ignored_libraries_patters = patterns,
       ignored_variables_patters = patterns,
       matches = glob_example \<rparr>"

definition stat_ok :: "string \<Rightarrow> py_exc + int" where
  "stat_ok p = Inr 1700000000000000000"

definition stat_fails :: "string \<Rightarrow> py_exc + int" where
  "stat_fails p = Inl (OSError ''Permission denied'')"

definition meta_only_files :: fs where
  "meta_only_files p = (if p = meta_file_example then Content ''meta:0.68.2'' else Absent)"

definition cached_files :: fs where
  "cached_files p =
     (if p = meta_file_example then Content ''meta:0.68.2''
      else if p = spec_file_example then Content ''spec:Collections''
      else Absent)"

definition garbled_files :: fs where
  "garbled_files p = (if p = meta_file_example then Content ''{'' else Absent)"

definition interrupted_files :: fs where
  "interrupted_files p = (if p = meta_file_example then Unreadable KeyboardInterrupt else Absent)"

definition locked_files :: fs where
  "locked_files p =
     (if p = meta_file_example then Inaccessible (OSError ''Permission denied'') else Absent)"

definition write_ok :: "string \<Rightarrow> write_outcome" where
  "write_ok p = WriteOk"

definition empty_library_entry :: LibrariesEntry where
  "empty_library_entry =
     \<lparr> l_id = 4, l_references = [7], l_file_watchers = [], l_lib_doc = None,
       l_ignore_reference = False \<rparr>"

definition empty_variables_entry :: VariablesEntry where
  "empty_variables_entry =
     \<lparr> v_id = 5, v_references = [7], v_file_watchers = [], v_lib_doc = None \<rparr>"



section \<open>Properties of the filepath base\<close>

lemma adler32_fold_bound:
  "fst ab < 65521 \<Longrightarrow> snd ab < 65521 \<Longrightarrow>
   fst (fold adler32_step s ab) < 65521 \<and> snd (fold adler32_step s ab) < 65521"
proof (induction s arbitrary: ab)
  case Nil
  then show ?case by simp
next
  case (Cons c cs)
  have "fst (adler32_step c ab) < 65521" "snd (adler32_step c ab) < 65521"
    by (simp_all add: adler32_step_def Let_def)
  then show ?case using Cons.IH by simp
qed

lemma adler32_lt: "adler32 s < 2 ^ 32"
proof -
  have "fst (fold adler32_step s (1, 0)) < 65521 \<and> snd (fold adler32_step s (1, 0)) < 65521"
    by (rule adler32_fold_bound) simp_all
  then show ?thesis by (simp add: adler32_def Let_def)
qed

lemma length_to_hex: "n < 16 ^ k \<Longrightarrow> 0 < k \<Longrightarrow> length (to_hex n) \<le> k"
proof (induction n arbitrary: k rule: to_hex.induct)
  case (1 n)
  show ?case
  proof (cases "n < 16")
    case True
    then show ?thesis using "1.prems" by (simp add: to_hex.simps [of n])
  next
    case False
    then obtain j where k: "k = Suc j" using "1.prems" by (cases k) auto
    have "0 < j" using False "1.prems" k by (cases j) auto
    moreover have "n div 16 < 16 ^ j" using "1.prems" k
      by (simp add: less_mult_imp_div_less mult.commute)
    ultimately have "length (to_hex (n div 16)) \<le> j" using "1.IH" False by blast
    then show ?thesis using False k by (simp add: to_hex.simps [of n])
  qed
qed

lemma to_hex_nonempty: "to_hex n \<noteq> []"
  by (simp add: to_hex.simps [of n])

lemma length_format_08x: "n < 2 ^ 32 \<Longrightarrow> length (format_08x n) = 8"
proof -
  assume "n < 2 ^ 32"
  then have "n < 16 ^ 8" by simp
  then have "length (to_hex n) \<le> 8" by (rule length_to_hex) simp
  then show ?thesis by (simp add: format_08x_def Let_def)
qed

lemma hex_digit_in: "hex_digit d \<in> set ''0123456789abcdef''"
proof -
  have "d mod 16 < length ''0123456789abcdef''" by simp
  then show ?thesis unfolding hex_digit_def by (rule nth_mem)
qed

lemma set_to_hex: "set (to_hex n) \<subseteq> set ''0123456789abcdef''"
proof (induction n rule: to_hex.induct)
  case (1 n)
  show ?case
  proof (cases "n < 16")
    case True
    then show ?thesis using hex_digit_in [of n] by (simp add: to_hex.simps [of n])
  next
    case False
    then show ?thesis using "1.IH" hex_digit_in [of "n mod 16"]
      by (simp add: to_hex.simps [of n])
  qed
qed

lemma set_format_08x: "set (format_08x n) \<subseteq> set ''0123456789abcdef''"
  using set_to_hex [of n] by (auto simp: format_08x_def Let_def)

text \<open>
  Claim C2. For a by-path meta with an origin, the filepath base is the Adler-32 of the
  string of the origin's parent path, written as exactly eight lower-case hexadecimal
  digits, then an underscore and the stem of the origin. For a module meta with a name it
  is the name with every dot replaced by a slash, followed by a dot and the member name
  when the member name is non-empty. The base is a function of the meta: equal metas have
  equal bases.
\<close>

theorem filepath_base_spec:
  "(by_path m \<and> origin m = Some p \<longrightarrow>
      filepath_base pl m = Inr (format_08x (adler32 (parent_str pl p)) @ ''_'' @ stem pl p)
      \<and> length (format_08x (adler32 (parent_str pl p))) = 8
      \<and> set (format_08x (adler32 (parent_str pl p))) \<subseteq> set ''0123456789abcdef'')
   \<and> (\<not> by_path m \<and> name m = Some n \<longrightarrow>
      filepath_base pl m =
        Inr (map (\<lambda>c. if c = CHR ''.'' then CHR ''/'' else c) n
             @ (case member_name m of
                  None \<Rightarrow> []
                | Some mn \<Rightarrow> if mn \<noteq> [] then ''.'' @ mn else [])))
   \<and> (m = m' \<longrightarrow> filepath_base pl m = filepath_base pl m')"
proof (intro conjI impI)
  assume h: "by_path m \<and> origin m = Some p"
  then show "filepath_base pl m = Inr (format_08x (adler32 (parent_str pl p)) @ ''_'' @ stem pl p)"
    by (simp add: filepath_base_def)
  show "length (format_08x (adler32 (parent_str pl p))) = 8"
    by (rule length_format_08x) (rule adler32_lt)
  show "set (format_08x (adler32 (parent_str pl p))) \<subseteq> set ''0123456789abcdef''"
    by (rule set_format_08x)
next
  assume "\<not> by_path m \<and> name m = Some n"
  then show "filepath_base pl m =
        Inr (map (\<lambda>c. if c = CHR ''.'' then CHR ''/'' else c) n
             @ (case member_name m of
                  None \<Rightarrow> []
                | Some mn \<Rightarrow> if mn \<noteq> [] then ''.'' @ mn else []))"
    by (simp add: filepath_base_def replace_dot_slash_def member_suffix_def split: option.splits)
next
  assume "m = m'"
  then show "filepath_base pl m = filepath_base pl m'" by simp
qed

theorem filepath_base_spec_witness:
  "by_path meta_by_path_example \<and> origin meta_by_path_example = Some ''C:/some dir/My.py''
   \<and> filepath_base posix meta_by_path_example = Inr ''14ef03c0_My''
   \<and> \<not> by_path meta_module_example
   \<and> name meta_module_example = Some ''robot.libraries.Collections''
   \<and> filepath_base posix meta_module_example = Inr ''robot/libraries/Collections.Collections''
   \<and> filepath_base posix meta_module_example = filepath_base posix meta_module_example"
proof -
  have p: "parent_str posix ''C:/some dir/My.py'' = ''C:/some dir''"
    by (simp add: posix_def posix_parent_str_def posix_root_def posix_parts_def posix_str_def)
  have s: "stem posix ''C:/some dir/My.py'' = ''My''"
    by (simp add: posix_def posix_stem_def posix_name_def posix_parts_def)
  have a: "adler32 ''C:/some dir'' = 351208384"
    by (simp add: adler32_def adler32_step_def Let_def)
  have f: "format_08x 351208384 = ''14ef03c0''"
    by (simp add: format_08x_def to_hex.simps hex_digit_def Let_def)
  have h1: "by_path meta_by_path_example \<and> origin meta_by_path_example = Some ''C:/some dir/My.py''"
    by (simp add: meta_by_path_example_def)
  have h2: "\<not> by_path meta_module_example
            \<and> name meta_module_example = Some ''robot.libraries.Collections''"
    by (simp add: meta_module_example_def)
  have m: "member_name meta_module_example = Some ''Collections''"
    by (simp add: meta_module_example_def)
  from filepath_base_spec [of meta_by_path_example "''C:/some dir/My.py''" posix "''x''"
      meta_by_path_example] h1
  have r1: "filepath_base posix meta_by_path_example = Inr ''14ef03c0_My''"
    by (simp add: p s a f)
  from filepath_base_spec [of meta_module_example "''x''" posix "''robot.libraries.Collections''"
      meta_module_example] h2
  have r2: "filepath_base posix meta_module_example = Inr ''robot/libraries/Collections.Collections''"
    by (simp add: m)
  show ?thesis using h1 h2 r1 r2 by simp
qed

section \<open>Eviction on deletion\<close>

lemmas entry_defs =
  l_check_file_changed_def r_check_file_changed_def v_check_file_changed_def
  l_invalidate_def r_invalidate_def v_invalidate_def
  l_path_matches_def r_path_matches_def v_path_matches_def
  truthy_def r_held_def r_get_libdoc_def

lemmas dispatch_defs =
  did_change_watched_files_def announce_all_def announce_libraries_def announce_resources_def
  announce_variables_def remove_library_entry_def remove_resource_entry_def
  remove_variables_entry_def pop_key_def changed_docs_def List.map_filter_def

lemmas example_defs =
  manager_example_def deleted_events_example_def library_entry_example_def
  resource_entry_example_def variables_entry_example_def watch_example_def doc_example_def
  is_below_def

lemma parent_lib_example: "posix_parent_str ''/w/lib/My.py'' = ''/w/lib''"
  by (simp add: posix_parent_str_def posix_root_def posix_parts_def posix_str_def)

lemma dispatch_deleted_example:
  "did_change_watched_files watch_example manager_example deleted_events_example =
     \<lparr> raised = None,
       manager_after =
         \<lparr> m_libaries =
             [((''/w/lib/My.py'', []),
               library_entry_example\<lparr>l_file_watchers := [], l_lib_doc := None\<rparr>)],
           m_resources = [],
           m_variables = [((''/w/vars.py'', []), variables_entry_example)],
           resource_document_changed_timer = None,
           resource_document_changed_documents = [] \<rparr>,
       actions =
         [Invalidated (LibraryRef (''/w/lib/My.py'', [])),
          Invalidated (ResourceRef ''/w/a.resource''),
          CacheCleared Library,
          Emitted Library [doc_example ''My'' ''/w/lib/My.py''],
          Popped (ResourceRef ''/w/a.resource''),
          CacheCleared Resource,
          Emitted Resource [doc_example ''a'' ''/w/a.resource'']] \<rparr>"
  by (simp add: dispatch_defs entry_defs example_defs parent_lib_example)

text \<open>
  Claim C3, evaluated on the code. A library entry and a resource entry each hold live
  sentinel references, and one batch reports the deletion of the source file of each.
  Both entries match and are invalidated. The resource entry is popped from its registry;
  the library entry is still registered afterwards, because the inner test of
  \<^verbatim>\<open>__remove_library_entry\<close> looks at the references only.
\<close>

theorem deleted_library_entry_stays_registered:
  "l_references library_entry_example = [7]
   \<and> r_references resource_entry_example = [7, 8]
   \<and> map_of (m_libaries (manager_after
         (did_change_watched_files watch_example manager_example deleted_events_example)))
        (''/w/lib/My.py'', [])
      = Some (library_entry_example\<lparr>l_file_watchers := [], l_lib_doc := None\<rparr>)
   \<and> map_of (m_resources (manager_after
         (did_change_watched_files watch_example manager_example deleted_events_example)))
        ''/w/a.resource''
      = None"
  by (simp add: dispatch_deleted_example)
     (simp add: library_entry_example_def resource_entry_example_def)

section \<open>The memoization key of \<^verbatim>\<open>find_variables\<close>\<close>

lemma cache_get_hit_after:
  assumes "cache_get cache key computed = (Inr r, cache1, called)"
  shows "map_of cache1 key = Some r"
  using assms
  by (auto simp: cache_get_def cache_max_items_def split: option.splits sum.splits)

text \<open>
  Claim C10. The key under which \<^verbatim>\<open>find_variables\<close> memoizes leaves out
  \<^verbatim>\<open>resolve_variables\<close>: after a call that returned a result, a call with the same name,
  base directory, variables and \<^verbatim>\<open>resolve_command_line_vars\<close> returns that result from the
  cache without calling \<^verbatim>\<open>__find_variables\<close>, whatever the two values of
  \<^verbatim>\<open>resolve_variables\<close> are; and \<^verbatim>\<open>__find_variables\<close> itself gives different results for the
  two values of the flag (on a name that contains a variable).
\<close>

theorem find_variables_key_omits_resolve_variables:
  assumes "find_variables env cache nm base_dir vars rv1 rclv = (Inr r, cache1, called)"
  shows "find_variables env cache1 nm base_dir vars rv2 rclv
           = (Inr r, ((nm, base_dir, vars, rclv), r) # pop_key (nm, base_dir, vars, rclv) cache1, False)
         \<and> private_find_variables find_example ''${DIR}/vars.py'' ''/w'' None True True
           \<noteq> private_find_variables find_example ''${DIR}/vars.py'' ''/w'' None False True"
proof -
  have "map_of cache1 (nm, base_dir, vars, rclv) = Some r"
    using assms unfolding find_variables_def by (rule cache_get_hit_after)
  then have "find_variables env cache1 nm base_dir vars rv2 rclv
           = (Inr r, ((nm, base_dir, vars, rclv), r) # pop_key (nm, base_dir, vars, rclv) cache1, False)"
    by (simp add: find_variables_def cache_get_def)
  moreover have "private_find_variables find_example ''${DIR}/vars.py'' ''/w'' None True True
           \<noteq> private_find_variables find_example ''${DIR}/vars.py'' ''/w'' None False True"
    by (simp add: private_find_variables_def find_example_def)
  ultimately show ?thesis by simp
qed

theorem find_variables_key_omits_resolve_variables_witness:
  "find_variables find_example [] ''${DIR}/vars.py'' ''/w'' None True True
     = (Inr ''/w/data/vars.py'', [((''${DIR}/vars.py'', ''/w'', None, True), ''/w/data/vars.py'')], True)
   \<and> find_variables find_example [((''${DIR}/vars.py'', ''/w'', None, True), ''/w/data/vars.py'')]
        ''${DIR}/vars.py'' ''/w'' None False True
     = (Inr ''/w/data/vars.py'', [((''${DIR}/vars.py'', ''/w'', None, True), ''/w/data/vars.py'')], False)
   \<and> private_find_variables find_example ''${DIR}/vars.py'' ''/w'' None False True
     = Inr ''/w/${DIR}/vars.py''"
proof -
  have first: "find_variables find_example [] ''${DIR}/vars.py'' ''/w'' None True True
     = (Inr ''/w/data/vars.py'', [((''${DIR}/vars.py'', ''/w'', None, True), ''/w/data/vars.py'')], True)"
    by (simp add: find_variables_def cache_get_def private_find_variables_def find_example_def
        cache_max_items_def)
  from find_variables_key_omits_resolve_variables [OF first, of False]
  have "find_variables find_example [((''${DIR}/vars.py'', ''/w'', None, True), ''/w/data/vars.py'')]
        ''${DIR}/vars.py'' ''/w'' None False True
     = (Inr ''/w/data/vars.py'', [((''${DIR}/vars.py'', ''/w'', None, True), ''/w/data/vars.py'')], False)"
    by (simp add: pop_key_def)
  moreover have "private_find_variables find_example ''${DIR}/vars.py'' ''/w'' None False True
     = Inr ''/w/${DIR}/vars.py''"
    by (simp add: private_find_variables_def find_example_def)
  ultimately show ?thesis using first by simp
qed

section \<open>Writing the cached pair\<close>

lemma cache_file_meta_neq_spec:
  "cache_file cp base ''.meta.json'' \<noteq> cache_file cp base ''.spec.json''"
  by (cases base) (simp_all add: cache_file_def)

lemma write_pair_writes:
  assumes "filepath_base (pathlib_of env) m = Inr base"
      and "write_pair env files cp m d = (x, files', effs)"
  shows "filter is_write effs = []
         \<or> (\<exists>st. filter is_write effs = [WriteText (cache_file cp base ''.spec.json'') st]
                 \<and> as_json_doc env d = Inr st)
         \<or> (\<exists>st mt. filter is_write effs =
                      [WriteText (cache_file cp base ''.spec.json'') st,
                       WriteText (cache_file cp base ''.meta.json'') mt]
                    \<and> as_json_doc env d = Inr st \<and> as_json_meta env m = Inr mt
                    \<and> write_outcome_of env (cache_file cp base ''.spec.json'') = WriteOk)"
  using assms
  by (auto simp: write_pair_def Let_def is_write_def write_text_def
           split: option.splits sum.splits prod.splits write_outcome.splits)

lemma write_pair_meta_untouched:
  assumes "filepath_base (pathlib_of env) m = Inr base"
      and "write_pair env files cp m d = (x, files', effs)"
      and "write_outcome_of env (cache_file cp base ''.spec.json'') \<noteq> WriteOk"
  shows "files' (cache_file cp base ''.meta.json'') = files (cache_file cp base ''.meta.json'')"
  using assms cache_file_meta_neq_spec [of cp base]
  by (auto simp: write_pair_def Let_def write_text_def
           split: option.splits sum.splits prod.splits write_outcome.splits)

lemma write_pair_spec_direct:
  assumes "filepath_base (pathlib_of env) m = Inr base"
      and "write_pair env files cp m d = (x, files', effs)"
      and "WriteText (cache_file cp base ''.spec.json'') st \<in> set effs"
  shows "files' (cache_file cp base ''.spec.json'') =
           (case write_outcome_of env (cache_file cp base ''.spec.json'') of
              WriteOk \<Rightarrow> Content st
            | OpenFails e \<Rightarrow> files (cache_file cp base ''.spec.json'')
            | WriteFails e n \<Rightarrow> Content (take n st))"
  using assms cache_file_meta_neq_spec [of cp base]
  by (auto simp: write_pair_def Let_def write_text_def
           split: option.splits sum.splits prod.splits write_outcome.splits)

lemma load_cached_no_write: "filter is_write (snd (load_cached env files cp base m)) = []"
  by (auto simp: load_cached_def load_inner_def Let_def is_write_def read_text_def
           split: sum.splits file_state.splits load_result.splits prod.splits)

lemma run_worker_no_write: "filter is_write (snd (run_worker w)) = []"
  by (auto simp: run_worker_def Let_def is_write_def split: sum.splits)

lemma save_result_Some:
  assumes "write_pair env files cp m d = (x, files', effs')"
  shows "files_after (save_result env files cp (Some m) d effs) = files'
         \<and> filter is_write (effects (save_result env files cp (Some m) d effs))
             = filter is_write effs @ filter is_write effs'
         \<and> set (effects (save_result env files cp (Some m) d effs)) \<inter> Collect is_write
             = (set effs \<union> set effs') \<inter> Collect is_write"
  using assms
  by (auto simp: save_result_def is_write_def split: option.splits)

text \<open>
  A build for a meta that is not \<^verbatim>\<open>None\<close> either leaves the files alone and writes
  nothing, or ends with the writes of \<open>write_pair\<close> for the document of the worker.
\<close>

lemma closure_writes:
  assumes "found_meta = Inr (Some m, src)"
      and "filepath_base (pathlib_of env) m = Inr base"
  shows "(files_after (get_libdoc_closure env cp files w found_meta) = files
          \<and> filter is_write (effects (get_libdoc_closure env cp files w found_meta)) = [])
         \<or> (\<exists>d x files' effs.
               write_pair env files cp m d = (x, files', effs)
               \<and> files_after (get_libdoc_closure env cp files w found_meta) = files'
               \<and> filter is_write (effects (get_libdoc_closure env cp files w found_meta))
                   = filter is_write effs
               \<and> set (effects (get_libdoc_closure env cp files w found_meta)) \<inter> Collect is_write
                   = set effs \<inter> Collect is_write)"
proof -
  obtain lr leffs where l: "load_cached env files cp base m = (lr, leffs)"
    by (cases "load_cached env files cp base m")
  have lw: "filter is_write leffs = []"
    using load_cached_no_write [of env files cp base m] l by simp
  obtain wr weffs where rw: "run_worker w = (wr, weffs)"
    by (cases "run_worker w")
  have ww: "filter is_write weffs = []"
    using run_worker_no_write [of w] rw by simp
  have lw': "set leffs \<inter> Collect is_write = {}" using lw by (auto simp: filter_empty_conv)
  have ww': "set weffs \<inter> Collect is_write = {}" using ww by (auto simp: filter_empty_conv)
  show ?thesis
  proof (cases lr)
    case (Hit d)
    then show ?thesis using assms l lw by (simp add: get_libdoc_closure_def)
  next
    case (Raised e)
    then show ?thesis using assms l lw by (simp add: get_libdoc_closure_def)
  next
    case Miss
    show ?thesis
    proof (cases wr)
      case None
      then show ?thesis using assms l lw rw ww Miss
        by (simp add: get_libdoc_closure_def build_from_worker_def)
    next
      case (Some res)
      show ?thesis
      proof (cases res)
        case (Inl e)
        then show ?thesis using assms l lw rw ww Miss Some
          by (simp add: get_libdoc_closure_def build_from_worker_def)
      next
        case (Inr d)
        obtain x files' effs where wp: "write_pair env files cp m d = (x, files', effs)"
          by (cases "write_pair env files cp m d")
        have r: "get_libdoc_closure env cp files w found_meta
                   = save_result env files cp (Some m) d (leffs @ weffs)"
          using assms l rw Miss Some Inr
          by (simp add: get_libdoc_closure_def build_from_worker_def)
        have "files_after (get_libdoc_closure env cp files w found_meta) = files'"
          using save_result_Some [OF wp] r by simp
        moreover have "filter is_write (effects (get_libdoc_closure env cp files w found_meta))
                         = filter is_write effs"
          using save_result_Some [OF wp, of "leffs @ weffs"] r lw ww by simp
        moreover have "set (effects (get_libdoc_closure env cp files w found_meta)) \<inter> Collect is_write
                         = set effs \<inter> Collect is_write"
          using save_result_Some [OF wp, of "leffs @ weffs"] r lw' ww' by auto
        ultimately show ?thesis using wp by blast
      qed
    qed
  qed
qed

lemma build_example_sel:
  "pathlib_of (build_example wo) = posix"
  "lib_doc_cache_path (build_example wo) = ''/w/.robotcode_cache/3.11.4/6.1/libdoc''"
  "variables_doc_cache_path (build_example wo) = ''/w/.robotcode_cache/3.11.4/6.1/variables''"
  "as_json_doc (build_example wo) d = Inr (''spec:'' @ doc_name d)"
  "as_json_meta (build_example wo) m = Inr (''meta:'' @ meta_version m)"
  "mkdir_parents (build_example wo) dir = None"
  "write_outcome_of (build_example wo) = wo"
  "from_json_meta (build_example wo) text =
     (if text = ''meta:0.68.2'' then Inr meta_module_example else Inl (ValueError ''invalid json''))"
  "from_json_doc (build_example wo) text =
     (if take 5 text = ''spec:''
      then Inr (doc_example (drop 5 text) ''/usr/lib/python3/robot/libraries/Collections.py'')
      else Inl (ValueError ''invalid json''))"
  by (simp_all add: build_example_def)

lemma base_module_example:
  "filepath_base posix meta_module_example = Inr ''robot/libraries/Collections.Collections''"
  by (simp add: filepath_base_def meta_module_example_def replace_dot_slash_def member_suffix_def)

lemma cache_files_example:
  "cache_file ''/w/.robotcode_cache/3.11.4/6.1/libdoc'' ''robot/libraries/Collections.Collections''
     ''.spec.json'' = spec_file_example"
  "cache_file ''/w/.robotcode_cache/3.11.4/6.1/libdoc'' ''robot/libraries/Collections.Collections''
     ''.meta.json'' = meta_file_example"
  by (simp_all add: cache_file_def spec_file_example_def meta_file_example_def)

lemma parent_spec_file_example:
  "parent_str posix spec_file_example = ''/w/.robotcode_cache/3.11.4/6.1/libdoc/robot/libraries''"
  by (simp add: posix_def spec_file_example_def posix_parent_str_def posix_root_def
      posix_parts_def posix_str_def)

lemma meta_neq_spec_example: "meta_file_example \<noteq> spec_file_example"
  by (simp add: meta_file_example_def spec_file_example_def)

lemma doc_name_collections: "doc_name collections_doc = ''Collections''"
  by (simp add: collections_doc_def doc_example_def)

lemma meta_version_example: "meta_version meta_module_example = ''0.68.2''"
  by (simp add: meta_module_example_def)

lemma write_pair_open_fails_example:
  "write_pair (build_example write_open_fails) files ''/w/.robotcode_cache/3.11.4/6.1/libdoc''
     meta_module_example collections_doc
   = (Some (RuntimeError ''Cannot write spec file''), files,
      [Mkdir ''/w/.robotcode_cache/3.11.4/6.1/libdoc/robot/libraries'',
       WriteText spec_file_example ''spec:Collections''])"
  by (simp add: write_pair_def build_example_sel base_module_example cache_files_example
      parent_spec_file_example doc_name_collections write_text_def write_open_fails_def
      is_control_def)

lemma run_worker_in_time:
  "d \<le> 30 \<Longrightarrow> run_worker (Finishes d (Inr doc))
     = (Some (Inr doc), [ExecutorCreated 1 Spawn, ResultAwaited 30, ExecutorShutdown True])"
  by (simp add: run_worker_def future_result_def shutdown_returns_def LOAD_LIBRARY_TIME_OUT_def)

lemma load_cached_absent:
  "files (cache_file cp base ''.meta.json'') = Absent \<Longrightarrow> load_cached env files cp base m = (Miss, [])"
  by (simp add: load_cached_def exists_file_def)

lemma build_open_fails_example:
  "get_libdoc_closure (build_example write_open_fails)
     (lib_doc_cache_path (build_example write_open_fails)) no_files
     (Finishes 2 (Inr collections_doc)) found_collections
   = \<lparr> outcome = Some (Inr collections_doc), files_after = no_files,
       effects =
         [ExecutorCreated 1 Spawn, ResultAwaited 30, ExecutorShutdown True,
          Mkdir ''/w/.robotcode_cache/3.11.4/6.1/libdoc/robot/libraries'',
          WriteText spec_file_example ''spec:Collections'',
          LogException (RuntimeError ''Cannot write spec file'')] \<rparr>"
proof -
  have l: "load_cached (build_example write_open_fails) no_files
             ''/w/.robotcode_cache/3.11.4/6.1/libdoc'' ''robot/libraries/Collections.Collections''
             meta_module_example = (Miss, [])"
    by (rule load_cached_absent) (simp add: no_files_def)
  show ?thesis
    by (simp add: get_libdoc_closure_def found_collections_def build_example_sel
        base_module_example l build_from_worker_def run_worker_in_time save_result_def
        write_pair_open_fails_example is_control_def)
qed

text \<open>
  Claim C4, as the code has it. For a build whose meta is not \<^verbatim>\<open>None\<close>: the writes of
  the build are none, or the spec file alone, or the spec file followed by the meta file,
  and the meta file is written only after the write of the spec file succeeded; when the
  write of the spec file fails, the meta file is not written and keeps its state. Each
  write is one \<^verbatim>\<open>write_text\<close> on the final path, with no temporary file and no rename:
  after a write of the spec file, that file holds the new text, or its previous state when
  opening failed, or the part written before the failure.
\<close>

theorem spec_written_before_meta:
  assumes "found_meta = Inr (Some m, src)"
      and "filepath_base (pathlib_of env) m = Inr base"
  shows "(filter is_write (effects (get_libdoc_closure env cp files w found_meta)) = []
          \<or> (\<exists>st. filter is_write (effects (get_libdoc_closure env cp files w found_meta))
                     = [WriteText (cache_file cp base ''.spec.json'') st])
          \<or> (\<exists>st mt. filter is_write (effects (get_libdoc_closure env cp files w found_meta))
                     = [WriteText (cache_file cp base ''.spec.json'') st,
                        WriteText (cache_file cp base ''.meta.json'') mt]
                   \<and> write_outcome_of env (cache_file cp base ''.spec.json'') = WriteOk))
       \<and> (write_outcome_of env (cache_file cp base ''.spec.json'') \<noteq> WriteOk \<longrightarrow>
            files_after (get_libdoc_closure env cp files w found_meta) (cache_file cp base ''.meta.json'')
              = files (cache_file cp base ''.meta.json'')
            \<and> (\<forall>mt. WriteText (cache_file cp base ''.meta.json'') mt
                      \<notin> set (effects (get_libdoc_closure env cp files w found_meta))))
       \<and> (\<forall>st. WriteText (cache_file cp base ''.spec.json'') st
                  \<in> set (effects (get_libdoc_closure env cp files w found_meta)) \<longrightarrow>
            files_after (get_libdoc_closure env cp files w found_meta) (cache_file cp base ''.spec.json'')
              = (case write_outcome_of env (cache_file cp base ''.spec.json'') of
                   WriteOk \<Rightarrow> Content st
                 | OpenFails e \<Rightarrow> files (cache_file cp base ''.spec.json'')
                 | WriteFails e n \<Rightarrow> Content (take n st)))"
proof -
  let ?r = "get_libdoc_closure env cp files w found_meta"
  let ?spec = "cache_file cp base ''.spec.json''"
  let ?meta = "cache_file cp base ''.meta.json''"
  have in_filter: "\<And>p t. WriteText p t \<in> set (effects ?r)
                     \<Longrightarrow> WriteText p t \<in> set (filter is_write (effects ?r))"
    by (simp add: is_write_def)
  from closure_writes [OF assms, of cp files w]
  consider (quiet) "files_after ?r = files" "filter is_write (effects ?r) = []"
    | (writes) d x files' effs where
        "write_pair env files cp m d = (x, files', effs)"
        "files_after ?r = files'"
        "filter is_write (effects ?r) = filter is_write effs"
        "set (effects ?r) \<inter> Collect is_write = set effs \<inter> Collect is_write"
    by blast
  then show ?thesis
  proof cases
    case quiet
    have none: "\<And>p t. WriteText p t \<notin> set (effects ?r)"
      using in_filter quiet(2) by fastforce
    show ?thesis using quiet none by simp
  next
    case writes
    have forms: "filter is_write (effects ?r) = []
          \<or> (\<exists>st. filter is_write (effects ?r) = [WriteText ?spec st])
          \<or> (\<exists>st mt. filter is_write (effects ?r) = [WriteText ?spec st, WriteText ?meta mt]
                   \<and> write_outcome_of env ?spec = WriteOk)"
      using write_pair_writes [OF assms(2) writes(1)] writes(3) by auto
    have part2: "write_outcome_of env ?spec \<noteq> WriteOk \<longrightarrow>
            files_after ?r ?meta = files ?meta \<and> (\<forall>mt. WriteText ?meta mt \<notin> set (effects ?r))"
    proof
      assume bad: "write_outcome_of env ?spec \<noteq> WriteOk"
      have a: "files_after ?r ?meta = files ?meta"
        using write_pair_meta_untouched [OF assms(2) writes(1) bad] writes(2) by simp
      have b: "\<forall>mt. WriteText ?meta mt \<notin> set (effects ?r)"
      proof
        fix mt
        show "WriteText ?meta mt \<notin> set (effects ?r)"
        proof
          assume "WriteText ?meta mt \<in> set (effects ?r)"
          then have "WriteText ?meta mt \<in> set (filter is_write (effects ?r))"
            by (rule in_filter)
          then have mem: "WriteText ?meta mt \<in> set (filter is_write (effects ?r))"
            by simp
          from forms show False
          proof (elim disjE exE conjE)
            assume e: "filter is_write (effects ?r) = []"
            from mem show False unfolding e by simp
          next
            fix st
            assume e: "filter is_write (effects ?r) = [WriteText ?spec st]"
            from mem show False unfolding e
              using cache_file_meta_neq_spec [of cp base] by simp
          next
            fix st mt'
            assume "write_outcome_of env ?spec = WriteOk"
            with bad show False by simp
          qed
        qed
      qed
      show "files_after ?r ?meta = files ?meta \<and> (\<forall>mt. WriteText ?meta mt \<notin> set (effects ?r))"
        using a b by simp
    qed
    have part3: "\<forall>st. WriteText ?spec st \<in> set (effects ?r) \<longrightarrow>
            files_after ?r ?spec
              = (case write_outcome_of env ?spec of
                   WriteOk \<Rightarrow> Content st
                 | OpenFails e \<Rightarrow> files ?spec
                 | WriteFails e n \<Rightarrow> Content (take n st))"
    proof (intro allI impI)
      fix st
      assume "WriteText ?spec st \<in> set (effects ?r)"
      then have "WriteText ?spec st \<in> set (effects ?r) \<inter> Collect is_write"
        by (simp add: is_write_def)
      then have "WriteText ?spec st \<in> set effs" using writes(4) by simp
      from write_pair_spec_direct [OF assms(2) writes(1) this] writes(2)
      show "files_after ?r ?spec
              = (case write_outcome_of env ?spec of
                   WriteOk \<Rightarrow> Content st
                 | OpenFails e \<Rightarrow> files ?spec
                 | WriteFails e n \<Rightarrow> Content (take n st))"
        by simp
    qed
    show ?thesis using forms part2 part3 by blast
  qed
qed

lemma write_pair_torn_example:
  "write_pair (build_example write_torn) files ''/w/.robotcode_cache/3.11.4/6.1/libdoc''
     meta_module_example collections_doc
   = (Some (RuntimeError ''Cannot write spec file''),
      files(spec_file_example := Content ''spec''),
      [Mkdir ''/w/.robotcode_cache/3.11.4/6.1/libdoc/robot/libraries'',
       WriteText spec_file_example ''spec:Collections''])"
  by (simp add: write_pair_def build_example_sel base_module_example cache_files_example
      parent_spec_file_example doc_name_collections write_text_def write_torn_def
      is_control_def)

lemma build_torn_example:
  "get_libdoc_closure (build_example write_torn)
     (lib_doc_cache_path (build_example write_torn)) stale_files
     (Finishes 2 (Inr collections_doc)) found_collections
   = \<lparr> outcome = Some (Inr collections_doc),
       files_after = stale_files(spec_file_example := Content ''spec''),
       effects =
         [ExecutorCreated 1 Spawn, ResultAwaited 30, ExecutorShutdown True,
          Mkdir ''/w/.robotcode_cache/3.11.4/6.1/libdoc/robot/libraries'',
          WriteText spec_file_example ''spec:Collections'',
          LogException (RuntimeError ''Cannot write spec file'')] \<rparr>"
proof -
  have "stale_files meta_file_example = Absent"
    using meta_neq_spec_example by (simp add: stale_files_def)
  then have l: "load_cached (build_example write_torn) stale_files
             ''/w/.robotcode_cache/3.11.4/6.1/libdoc'' ''robot/libraries/Collections.Collections''
             meta_module_example = (Miss, [])"
    by (intro load_cached_absent) (simp add: cache_files_example)
  show ?thesis
    by (simp add: get_libdoc_closure_def found_collections_def build_example_sel
        base_module_example l build_from_worker_def run_worker_in_time save_result_def
        write_pair_torn_example is_control_def)
qed

theorem spec_written_before_meta_witness:
  "found_collections = Inr (Some meta_module_example, ''robot.libraries.Collections'')
   \<and> filepath_base (pathlib_of (build_example write_open_fails)) meta_module_example
       = Inr ''robot/libraries/Collections.Collections''
   \<and> write_outcome_of (build_example write_open_fails) spec_file_example \<noteq> WriteOk
   \<and> WriteText spec_file_example ''spec:Collections''
       \<in> set (effects (get_libdoc_closure (build_example write_open_fails)
                 (lib_doc_cache_path (build_example write_open_fails)) no_files
                 (Finishes 2 (Inr collections_doc)) found_collections))
   \<and> files_after (get_libdoc_closure (build_example write_open_fails)
                 (lib_doc_cache_path (build_example write_open_fails)) no_files
                 (Finishes 2 (Inr collections_doc)) found_collections) meta_file_example
       = no_files meta_file_example
   \<and> files_after (get_libdoc_closure (build_example write_open_fails)
                 (lib_doc_cache_path (build_example write_open_fails)) no_files
                 (Finishes 2 (Inr collections_doc)) found_collections) spec_file_example
       = no_files spec_file_example"
proof -
  let ?env = "build_example write_open_fails"
  let ?r = "get_libdoc_closure ?env (lib_doc_cache_path ?env) no_files
              (Finishes 2 (Inr collections_doc)) found_collections"
  have h1: "found_collections = Inr (Some meta_module_example, ''robot.libraries.Collections'')"
    by (simp add: found_collections_def)
  have h2: "filepath_base (pathlib_of ?env) meta_module_example
              = Inr ''robot/libraries/Collections.Collections''"
    by (simp add: build_example_sel base_module_example)
  have h3: "write_outcome_of ?env spec_file_example \<noteq> WriteOk"
    by (simp add: build_example_sel write_open_fails_def)
  have h3': "write_outcome_of ?env spec_file_example = OpenFails (OSError ''Permission denied'')"
    by (simp add: build_example_sel write_open_fails_def)
  have h4: "WriteText spec_file_example ''spec:Collections'' \<in> set (effects ?r)"
    by (simp add: build_open_fails_example)
  have cf: "cache_file (lib_doc_cache_path ?env) ''robot/libraries/Collections.Collections''
              ''.spec.json'' = spec_file_example"
           "cache_file (lib_doc_cache_path ?env) ''robot/libraries/Collections.Collections''
              ''.meta.json'' = meta_file_example"
    by (simp_all add: build_example_sel cache_files_example)
  note t = spec_written_before_meta [OF h1 h2, of "lib_doc_cache_path ?env" no_files
      "Finishes 2 (Inr collections_doc)", unfolded cf]
  from t h3 have a: "files_after ?r meta_file_example = no_files meta_file_example"
    by blast
  from t h4 have "files_after ?r spec_file_example
                    = (case write_outcome_of ?env spec_file_example of
                         WriteOk \<Rightarrow> Content ''spec:Collections''
                       | OpenFails e \<Rightarrow> no_files spec_file_example
                       | WriteFails e n \<Rightarrow> Content (take n ''spec:Collections''))"
    by blast
  then have b: "files_after ?r spec_file_example = no_files spec_file_example"
    by (simp add: h3')
  show ?thesis using h1 h2 h3 h4 a b by blast
qed

text \<open>
  The writes are not atomic. The spec file holds an older text, the worker returns the
  document, and the write of the spec file fails after four bytes: afterwards the spec
  file holds those four bytes, neither the older text nor the new one, and the effects
  of the build show the one direct write on the final path.
\<close>

theorem spec_write_not_atomic:
  "stale_files spec_file_example = Content ''spec:Old''
   \<and> as_json_doc (build_example write_torn) collections_doc = Inr ''spec:Collections''
   \<and> files_after (get_libdoc_closure (build_example write_torn)
                    (lib_doc_cache_path (build_example write_torn)) stale_files
                    (Finishes 2 (Inr collections_doc)) found_collections) spec_file_example
       = Content ''spec''
   \<and> filter is_write (effects (get_libdoc_closure (build_example write_torn)
                    (lib_doc_cache_path (build_example write_torn)) stale_files
                    (Finishes 2 (Inr collections_doc)) found_collections))
       = [WriteText spec_file_example ''spec:Collections'']"
  unfolding build_torn_example
  by (simp add: stale_files_def build_example_sel doc_name_collections is_write_def)

section \<open>Cache hits and misses\<close>

lemma load_cached_Hit_iff:
  "fst (load_cached env files cp base m) = Hit d \<longleftrightarrow>
     (\<exists>mt st. files (cache_file cp base ''.meta.json'') = Content mt
            \<and> from_json_meta env mt = Inr m
            \<and> files (cache_file cp base ''.spec.json'') = Content st
            \<and> from_json_doc env st = Inr d)"
  by (auto simp: load_cached_def load_inner_def Let_def read_text_def exists_file_def
           split: file_state.splits sum.splits if_splits)

lemma load_cached_no_executor:
  "ExecutorCreated n sm \<notin> set (snd (load_cached env files cp base m))"
  by (auto simp: load_cached_def load_inner_def Let_def read_text_def exists_file_def
           split: file_state.splits sum.splits if_splits)

lemma build_from_worker_runs:
  "runs_subprocess (build_from_worker env files cp w mo effs)"
  by (auto simp: runs_subprocess_def build_from_worker_def run_worker_def save_result_def Let_def
           split: option.splits sum.splits prod.splits)

lemma write_pair_exception_files:
  "fst (write_pair env files cp m d) = fst (write_pair env files' cp m d)"
  by (auto simp: write_pair_def Let_def write_text_def
           split: option.splits sum.splits prod.splits write_outcome.splits)

lemma save_result_outcome_files:
  "outcome (save_result env files cp mo d effs) = outcome (save_result env files' cp mo d effs')"
proof (cases mo)
  case None
  then show ?thesis by (simp add: save_result_def)
next
  case (Some m)
  obtain x f e where a: "write_pair env files cp m d = (x, f, e)"
    by (cases "write_pair env files cp m d")
  obtain x' f' e' where b: "write_pair env files' cp m d = (x', f', e')"
    by (cases "write_pair env files' cp m d")
  have "x = x'" using write_pair_exception_files [of env files cp m d files'] a b by simp
  then show ?thesis using Some a b by (simp add: save_result_def split: option.splits)
qed

lemma build_from_worker_outcome_files:
  "outcome (build_from_worker env files cp w mo effs)
     = outcome (build_from_worker env files' cp w mo effs')"
proof (cases "run_worker w")
  case (Pair wr weffs)
  show ?thesis
  proof (cases wr)
    case None
    then show ?thesis using Pair by (simp add: build_from_worker_def)
  next
    case (Some res)
    then show ?thesis using Pair save_result_outcome_files
      by (cases res) (simp_all add: build_from_worker_def)
  qed
qed

lemma load_cached_read_error:
  assumes "accessible files (cache_file cp base ''.meta.json'')"
      and "cache_read_error env files cp base m = Some e" and "\<not> is_control e"
  shows "fst (load_cached env files cp base m) = Miss"
  using assms
  by (auto simp: cache_read_error_def load_cached_def load_inner_def Let_def read_text_def
                 exists_file_def accessible_def
           split: file_state.splits sum.splits if_splits)

lemma closure_Miss:
  assumes "found_meta = Inr (Some m, src)"
      and "filepath_base (pathlib_of env) m = Inr base"
      and "fst (load_cached env files cp base m) = Miss"
  shows "get_libdoc_closure env cp files w found_meta
           = build_from_worker env files cp w (Some m) (snd (load_cached env files cp base m))"
  using assms by (cases "load_cached env files cp base m") (simp add: get_libdoc_closure_def)

lemma closure_Hit:
  assumes "found_meta = Inr (Some m, src)"
      and "filepath_base (pathlib_of env) m = Inr base"
      and "fst (load_cached env files cp base m) = Hit d"
  shows "get_libdoc_closure env cp files w found_meta
           = \<lparr> outcome = Some (Inr d), files_after = files,
               effects = snd (load_cached env files cp base m) \<rparr>"
  using assms by (cases "load_cached env files cp base m") (simp add: get_libdoc_closure_def)

lemma closure_Raised:
  assumes "found_meta = Inr (Some m, src)"
      and "filepath_base (pathlib_of env) m = Inr base"
      and "fst (load_cached env files cp base m) = Raised e"
  shows "get_libdoc_closure env cp files w found_meta
           = \<lparr> outcome = Some (Inl e), files_after = files,
               effects = snd (load_cached env files cp base m) \<rparr>"
  using assms by (cases "load_cached env files cp base m") (simp add: get_libdoc_closure_def)

lemma closure_hit_iff:
  "(outcome (get_libdoc_closure env cp files w found_meta) = Some (Inr d)
    \<and> \<not> runs_subprocess (get_libdoc_closure env cp files w found_meta))
   \<longleftrightarrow> (\<exists>m src base mt st.
          found_meta = Inr (Some m, src)
        \<and> filepath_base (pathlib_of env) m = Inr base
        \<and> files (cache_file cp base ''.meta.json'') = Content mt
        \<and> from_json_meta env mt = Inr m
        \<and> files (cache_file cp base ''.spec.json'') = Content st
        \<and> from_json_doc env st = Inr d)"
  (is "?L \<longleftrightarrow> ?R")
proof
  assume L: ?L
  show ?R
  proof (cases found_meta)
    case (Inl e)
    then show ?thesis using L by (simp add: get_libdoc_closure_def)
  next
    case (Inr ms)
    obtain mo src where ms: "ms = (mo, src)" by (cases ms)
    show ?thesis
    proof (cases mo)
      case None
      then show ?thesis using L Inr ms build_from_worker_runs
        by (simp add: get_libdoc_closure_def)
    next
      case (Some m)
      then have fm: "found_meta = Inr (Some m, src)" using Inr ms by simp
      show ?thesis
      proof (cases "filepath_base (pathlib_of env) m")
        case (Inl e)
        then show ?thesis using L fm by (simp add: get_libdoc_closure_def)
      next
        case base: (Inr base)
        show ?thesis
        proof (cases "fst (load_cached env files cp base m)")
          case (Hit d')
          from closure_Hit [OF fm base Hit] L have "d' = d" by simp
          then show ?thesis using Hit fm base load_cached_Hit_iff [of env files cp base m d]
            by blast
        next
          case Miss
          from closure_Miss [OF fm base Miss] L build_from_worker_runs show ?thesis by simp
        next
          case (Raised e)
          from closure_Raised [OF fm base Raised] L show ?thesis by simp
        qed
      qed
    qed
  qed
next
  assume ?R
  then obtain m src base mt st where
    fm: "found_meta = Inr (Some m, src)" and
    base: "filepath_base (pathlib_of env) m = Inr base" and
    rest: "files (cache_file cp base ''.meta.json'') = Content mt"
          "from_json_meta env mt = Inr m"
          "files (cache_file cp base ''.spec.json'') = Content st"
          "from_json_doc env st = Inr d"
    by blast
  have hit: "fst (load_cached env files cp base m) = Hit d"
    using rest load_cached_Hit_iff [of env files cp base m d] by blast
  show ?L using closure_Hit [OF fm base hit] load_cached_no_executor [of 1 Spawn env files cp base m]
    by (simp add: runs_subprocess_def)
qed

lemma load_cached_absent_pair:
  "load_cached env (files(cache_file cp base ''.meta.json'' := Absent,
                          cache_file cp base ''.spec.json'' := Absent)) cp base m = (Miss, [])"
  using cache_file_meta_neq_spec [of cp base] by (simp add: load_cached_def exists_file_def)

lemma closure_read_error:
  assumes fm: "found_meta = Inr (Some m, src)"
      and base: "filepath_base (pathlib_of env) m = Inr base"
      and acc: "accessible files (cache_file cp base ''.meta.json'')"
      and err: "cache_read_error env files cp base m = Some e"
      and nc: "\<not> is_control e"
  shows "runs_subprocess (get_libdoc_closure env cp files w found_meta)"
    and "outcome (get_libdoc_closure env cp files w found_meta)
           = outcome (get_libdoc_closure env cp
                        (files(cache_file cp base ''.meta.json'' := Absent,
                               cache_file cp base ''.spec.json'' := Absent)) w found_meta)"
    and "outcome (get_libdoc_closure env cp files w found_meta)
           = outcome (build_from_worker env files cp w (Some m) [])"
proof -
  let ?files' = "files(cache_file cp base ''.meta.json'' := Absent,
                       cache_file cp base ''.spec.json'' := Absent)"
  have miss: "fst (load_cached env files cp base m) = Miss"
    using acc err nc by (rule load_cached_read_error)
  have r: "get_libdoc_closure env cp files w found_meta
             = build_from_worker env files cp w (Some m) (snd (load_cached env files cp base m))"
    using fm base miss by (rule closure_Miss)
  have miss': "fst (load_cached env ?files' cp base m) = Miss"
    by (simp add: load_cached_absent_pair)
  have r': "get_libdoc_closure env cp ?files' w found_meta
              = build_from_worker env ?files' cp w (Some m) (snd (load_cached env ?files' cp base m))"
    using fm base miss' by (rule closure_Miss)
  show "runs_subprocess (get_libdoc_closure env cp files w found_meta)"
    unfolding r by (rule build_from_worker_runs)
  show "outcome (get_libdoc_closure env cp files w found_meta)
           = outcome (get_libdoc_closure env cp ?files' w found_meta)"
    unfolding r r' by (rule build_from_worker_outcome_files)
  show "outcome (get_libdoc_closure env cp files w found_meta)
           = outcome (build_from_worker env files cp w (Some m) [])"
    unfolding r by (rule build_from_worker_outcome_files)
qed

text \<open>
  Claim C1, as the code has it. A library build returns the document of the spec file
  without running the worker exactly when the fresh meta is not \<^verbatim>\<open>None\<close>, the meta file
  exists, reads and parses, the parsed meta equals the fresh meta (in every field), and
  the spec file reads and parses to that document. Once the existence test of the meta
  file has returned, a read or parse error of either file, other than the two control
  exceptions, leads to a build by the worker, with the outcome the build has when both
  files are absent.
\<close>

theorem library_cache_hit_iff:
  "((outcome (get_libdoc_library env menv files w found nm) = Some (Inr d)
     \<and> \<not> runs_subprocess (get_libdoc_library env menv files w found nm))
    \<longleftrightarrow> (\<exists>m src base mt st.
           get_library_meta menv found nm = Inr (Some m, src)
         \<and> filepath_base (pathlib_of env) m = Inr base
         \<and> files (cache_file (lib_doc_cache_path env) base ''.meta.json'') = Content mt
         \<and> from_json_meta env mt = Inr m
         \<and> files (cache_file (lib_doc_cache_path env) base ''.spec.json'') = Content st
         \<and> from_json_doc env st = Inr d))
   \<and> (\<forall>m src base e.
         get_library_meta menv found nm = Inr (Some m, src)
       \<and> filepath_base (pathlib_of env) m = Inr base
       \<and> accessible files (cache_file (lib_doc_cache_path env) base ''.meta.json'')
       \<and> cache_read_error env files (lib_doc_cache_path env) base m = Some e
       \<and> \<not> is_control e
       \<longrightarrow> runs_subprocess (get_libdoc_library env menv files w found nm)
         \<and> outcome (get_libdoc_library env menv files w found nm)
             = outcome (get_libdoc_library env menv
                          (files(cache_file (lib_doc_cache_path env) base ''.meta.json'' := Absent,
                                 cache_file (lib_doc_cache_path env) base ''.spec.json'' := Absent))
                          w found nm))"
proof (intro conjI allI impI)
  show "(outcome (get_libdoc_library env menv files w found nm) = Some (Inr d)
     \<and> \<not> runs_subprocess (get_libdoc_library env menv files w found nm))
    \<longleftrightarrow> (\<exists>m src base mt st.
           get_library_meta menv found nm = Inr (Some m, src)
         \<and> filepath_base (pathlib_of env) m = Inr base
         \<and> files (cache_file (lib_doc_cache_path env) base ''.meta.json'') = Content mt
         \<and> from_json_meta env mt = Inr m
         \<and> files (cache_file (lib_doc_cache_path env) base ''.spec.json'') = Content st
         \<and> from_json_doc env st = Inr d)"
    unfolding get_libdoc_library_def by (rule closure_hit_iff)
next
  fix m src base e
  assume h: "get_library_meta menv found nm = Inr (Some m, src)
       \<and> filepath_base (pathlib_of env) m = Inr base
       \<and> accessible files (cache_file (lib_doc_cache_path env) base ''.meta.json'')
       \<and> cache_read_error env files (lib_doc_cache_path env) base m = Some e
       \<and> \<not> is_control e"
  then have fm: "get_library_meta menv found nm = Inr (Some m, src)"
    and base: "filepath_base (pathlib_of env) m = Inr base"
    and acc: "accessible files (cache_file (lib_doc_cache_path env) base ''.meta.json'')"
    and err: "cache_read_error env files (lib_doc_cache_path env) base m = Some e"
    and nc: "\<not> is_control e"
    by simp_all
  show "runs_subprocess (get_libdoc_library env menv files w found nm)"
    unfolding get_libdoc_library_def by (rule closure_read_error(1) [OF fm base acc err nc])
  show "outcome (get_libdoc_library env menv files w found nm)
             = outcome (get_libdoc_library env menv
                          (files(cache_file (lib_doc_cache_path env) base ''.meta.json'' := Absent,
                                 cache_file (lib_doc_cache_path env) base ''.spec.json'' := Absent))
                          w found nm)"
    unfolding get_libdoc_library_def by (rule closure_read_error(2) [OF fm base acc err nc])
qed

lemma library_meta_collections:
  "get_library_meta (menv_example [] stat_ok) (Inr ''robot.libraries.Collections'') ''Collections''
     = Inr (Some meta_module_example, ''robot.libraries.Collections'')"
  by (simp add: get_library_meta_def meta_body_def identify_def is_ignored_def collect_mtimes_def
      menv_example_def stat_ok_def meta_module_example_def)

lemma save_result_write_ok_example:
  "save_result (build_example write_ok) files ''/w/.robotcode_cache/3.11.4/6.1/libdoc''
     (Some meta_module_example) collections_doc effs
   = \<lparr> outcome = Some (Inr collections_doc),
       files_after = files(spec_file_example := Content ''spec:Collections'',
                           meta_file_example := Content ''meta:0.68.2''),
       effects = effs @
         [Mkdir ''/w/.robotcode_cache/3.11.4/6.1/libdoc/robot/libraries'',
          WriteText spec_file_example ''spec:Collections'',
          WriteText meta_file_example ''meta:0.68.2''] \<rparr>"
  by (simp add: save_result_def write_pair_def build_example_sel base_module_example
      cache_files_example parent_spec_file_example doc_name_collections meta_version_example
      write_text_def write_ok_def)

lemma worker_outcome_write_ok_example:
  "outcome (build_from_worker (build_example write_ok) files
              ''/w/.robotcode_cache/3.11.4/6.1/libdoc'' (Finishes 2 (Inr collections_doc))
              (Some meta_module_example) effs)
     = Some (Inr collections_doc)"
  by (simp add: build_from_worker_def run_worker_in_time save_result_write_ok_example)

lemma from_json_doc_collections:
  "from_json_doc (build_example wo) ''spec:Collections'' = Inr collections_doc"
  by (simp add: build_example_sel collections_doc_def)

lemma read_error_garbled_example:
  "cache_read_error (build_example wo) garbled_files (lib_doc_cache_path (build_example wo))
     ''robot/libraries/Collections.Collections'' meta_module_example
   = Some (ValueError ''invalid json'')"
  by (simp add: cache_read_error_def build_example_sel cache_files_example read_text_def
      garbled_files_def)

lemma read_error_meta_only_example:
  "cache_read_error (build_example wo) meta_only_files (lib_doc_cache_path (build_example wo))
     ''robot/libraries/Collections.Collections'' meta_module_example
   = Some (OSError ''No such file or directory'')"
  using meta_neq_spec_example
  by (simp add: cache_read_error_def build_example_sel cache_files_example read_text_def
      meta_only_files_def)

theorem library_cache_hit_iff_witness:
  "outcome (get_libdoc_library (build_example write_ok) (menv_example [] stat_ok) cached_files
              Never (Inr ''robot.libraries.Collections'') ''Collections'')
     = Some (Inr collections_doc)
   \<and> \<not> runs_subprocess (get_libdoc_library (build_example write_ok) (menv_example [] stat_ok)
              cached_files Never (Inr ''robot.libraries.Collections'') ''Collections'')
   \<and> cache_read_error (build_example write_ok) garbled_files
        (lib_doc_cache_path (build_example write_ok))
        ''robot/libraries/Collections.Collections'' meta_module_example
       = Some (ValueError ''invalid json'')
   \<and> \<not> is_control (ValueError ''invalid json'')
   \<and> accessible garbled_files
        (cache_file (lib_doc_cache_path (build_example write_ok))
           ''robot/libraries/Collections.Collections'' ''.meta.json'')
   \<and> runs_subprocess (get_libdoc_library (build_example write_ok) (menv_example [] stat_ok)
              garbled_files (Finishes 2 (Inr collections_doc))
              (Inr ''robot.libraries.Collections'') ''Collections'')"
proof -
  let ?E = "build_example write_ok"
  let ?M = "menv_example [] stat_ok"
  let ?F = "Inr ''robot.libraries.Collections'' :: py_exc + string"
  have base: "filepath_base (pathlib_of ?E) meta_module_example
                = Inr ''robot/libraries/Collections.Collections''"
    by (simp add: build_example_sel base_module_example)
  have hit: "\<exists>m src base mt st.
           get_library_meta ?M ?F ''Collections'' = Inr (Some m, src)
         \<and> filepath_base (pathlib_of ?E) m = Inr base
         \<and> cached_files (cache_file (lib_doc_cache_path ?E) base ''.meta.json'') = Content mt
         \<and> from_json_meta ?E mt = Inr m
         \<and> cached_files (cache_file (lib_doc_cache_path ?E) base ''.spec.json'') = Content st
         \<and> from_json_doc ?E st = Inr collections_doc"
    apply (rule exI [of _ meta_module_example])
    apply (rule exI [of _ "''robot.libraries.Collections''"])
    apply (rule exI [of _ "''robot/libraries/Collections.Collections''"])
    apply (rule exI [of _ "''meta:0.68.2''"])
    apply (rule exI [of _ "''spec:Collections''"])
    using meta_neq_spec_example
    apply (simp add: library_meta_collections base from_json_doc_collections)
    apply (simp add: build_example_sel cache_files_example cached_files_def)
    done
  from library_cache_hit_iff [of ?E ?M cached_files Never ?F "''Collections''" collections_doc] hit
  have a: "outcome (get_libdoc_library ?E ?M cached_files Never ?F ''Collections'')
             = Some (Inr collections_doc)
           \<and> \<not> runs_subprocess (get_libdoc_library ?E ?M cached_files Never ?F ''Collections'')"
    by blast
  have nc: "\<not> is_control (ValueError ''invalid json'')"
    by (simp add: is_control_def)
  have acc: "accessible garbled_files
               (cache_file (lib_doc_cache_path ?E)
                  ''robot/libraries/Collections.Collections'' ''.meta.json'')"
    by (simp add: accessible_def garbled_files_def)
  from library_cache_hit_iff [of ?E ?M garbled_files "Finishes 2 (Inr collections_doc)" ?F
      "''Collections''" collections_doc]
    library_meta_collections base acc read_error_garbled_example [of write_ok] nc
  have b: "runs_subprocess (get_libdoc_library ?E ?M garbled_files
             (Finishes 2 (Inr collections_doc)) ?F ''Collections'')"
    by blast
  show ?thesis using a b nc acc read_error_garbled_example [of write_ok] by blast
qed

text \<open>
  The condition of the claim leaves out the spec file. Here the fresh meta is there,
  the meta file exists, parses and equals it, and the spec file is missing: the worker
  runs and its document is returned.
\<close>

theorem library_cache_hit_needs_spec_file:
  "get_library_meta (menv_example [] stat_ok) (Inr ''robot.libraries.Collections'') ''Collections''
     = Inr (Some meta_module_example, ''robot.libraries.Collections'')
   \<and> meta_only_files meta_file_example = Content ''meta:0.68.2''
   \<and> from_json_meta (build_example write_ok) ''meta:0.68.2'' = Inr meta_module_example
   \<and> meta_only_files spec_file_example = Absent
   \<and> runs_subprocess (get_libdoc_library (build_example write_ok) (menv_example [] stat_ok)
        meta_only_files (Finishes 2 (Inr collections_doc))
        (Inr ''robot.libraries.Collections'') ''Collections'')
   \<and> outcome (get_libdoc_library (build_example write_ok) (menv_example [] stat_ok)
        meta_only_files (Finishes 2 (Inr collections_doc))
        (Inr ''robot.libraries.Collections'') ''Collections'')
       = Some (Inr collections_doc)"
proof -
  let ?E = "build_example write_ok"
  have base: "filepath_base (pathlib_of ?E) meta_module_example
                = Inr ''robot/libraries/Collections.Collections''"
    by (simp add: build_example_sel base_module_example)
  have nc: "\<not> is_control (OSError ''No such file or directory'')"
    by (simp add: is_control_def)
  have acc: "accessible meta_only_files
               (cache_file (lib_doc_cache_path ?E)
                  ''robot/libraries/Collections.Collections'' ''.meta.json'')"
    by (simp add: accessible_def meta_only_files_def)
  note re = closure_read_error [OF library_meta_collections base acc
      read_error_meta_only_example [of write_ok] nc, of "Finishes 2 (Inr collections_doc)"]
  have a: "runs_subprocess (get_libdoc_library ?E (menv_example [] stat_ok)
        meta_only_files (Finishes 2 (Inr collections_doc))
        (Inr ''robot.libraries.Collections'') ''Collections'')"
    unfolding get_libdoc_library_def by (rule re(1))
  have b: "outcome (get_libdoc_library ?E (menv_example [] stat_ok)
        meta_only_files (Finishes 2 (Inr collections_doc))
        (Inr ''robot.libraries.Collections'') ''Collections'') = Some (Inr collections_doc)"
    unfolding get_libdoc_library_def re(3)
    by (simp add: build_example_sel worker_outcome_write_ok_example)
  show ?thesis
    using a b meta_neq_spec_example
    by (simp add: library_meta_collections meta_only_files_def build_example_sel)
qed

section \<open>Errors of cache input and output\<close>

lemma load_cached_Hit_no_error:
  "fst (load_cached env files cp base m) = Hit d \<Longrightarrow> cache_read_error env files cp base m = None"
  by (auto simp: cache_read_error_def load_cached_def load_inner_def Let_def read_text_def
                 exists_file_def
           split: file_state.splits sum.splits if_splits)

lemma load_cached_Raised_control:
  "accessible files (cache_file cp base ''.meta.json'') \<Longrightarrow>
   fst (load_cached env files cp base m) = Raised e \<Longrightarrow>
     cache_read_error env files cp base m = Some e \<and> is_control e"
  by (auto simp: cache_read_error_def load_cached_def load_inner_def Let_def read_text_def
                 exists_file_def accessible_def
           split: file_state.splits sum.splits if_splits)

lemma load_cached_exists_raises:
  "exists_file files (cache_file cp base ''.meta.json'') = Inl e \<Longrightarrow>
     load_cached env files cp base m = (Raised e, [])"
  by (simp add: load_cached_def)

lemma closure_exists_raises:
  assumes "found_meta = Inr (Some m, src)"
      and "filepath_base (pathlib_of env) m = Inr base"
      and "exists_file files (cache_file cp base ''.meta.json'') = Inl e"
  shows "get_libdoc_closure env cp files w found_meta
           = \<lparr> outcome = Some (Inl e), files_after = files, effects = [] \<rparr>"
  using assms by (simp add: get_libdoc_closure_def load_cached_exists_raises)

lemma save_result_returns_doc:
  assumes "\<forall>e. fst (write_pair env files cp m d) = Some e \<longrightarrow> \<not> is_control e"
  shows "outcome (save_result env files cp (Some m) d effs) = Some (Inr d)"
proof (cases "write_pair env files cp m d")
  case (fields x files' effs')
  show ?thesis
  proof (cases x)
    case None
    then show ?thesis using fields by (simp add: save_result_def)
  next
    case (Some e)
    then have "\<not> is_control e" using assms fields by simp
    then show ?thesis using fields Some by (simp add: save_result_def)
  qed
qed

lemma worker_returns_doc:
  assumes "t \<le> LOAD_LIBRARY_TIME_OUT"
      and "\<forall>e. fst (write_pair env files cp m d) = Some e \<longrightarrow> \<not> is_control e"
  shows "outcome (build_from_worker env files cp (Finishes t (Inr d)) (Some m) effs) = Some (Inr d)"
  using assms save_result_returns_doc [of env files cp m d]
  by (simp add: build_from_worker_def run_worker_def future_result_def shutdown_returns_def)

text \<open>
  Claim C5, as the code has it, for the closure that both the library build and the
  variables build run (each with its own cache directory and meta). The worker returns a
  document in time and the existence test of the meta file has returned. When reading
  and writing the cached pair raise no control exception (\<^verbatim>\<open>SystemExit\<close>,
  \<^verbatim>\<open>KeyboardInterrupt\<close>), the build returns a document; a failed read is a miss, the
  worker runs and its document is returned; and whenever the worker ran, its document is
  returned, also when writing the pair failed.
\<close>

theorem cache_io_errors_not_fatal:
  assumes "found_meta = Inr (Some m, src)"
      and "filepath_base (pathlib_of env) m = Inr base"
      and "t \<le> LOAD_LIBRARY_TIME_OUT"
      and "accessible files (cache_file cp base ''.meta.json'')"
      and "\<forall>e. cache_read_error env files cp base m = Some e \<longrightarrow> \<not> is_control e"
      and "\<forall>e. fst (write_pair env files cp m d) = Some e \<longrightarrow> \<not> is_control e"
  shows "(\<exists>d'. outcome (get_libdoc_closure env cp files (Finishes t (Inr d)) found_meta)
                 = Some (Inr d'))
       \<and> (cache_read_error env files cp base m \<noteq> None \<longrightarrow>
            runs_subprocess (get_libdoc_closure env cp files (Finishes t (Inr d)) found_meta)
            \<and> outcome (get_libdoc_closure env cp files (Finishes t (Inr d)) found_meta)
                = Some (Inr d))
       \<and> (runs_subprocess (get_libdoc_closure env cp files (Finishes t (Inr d)) found_meta) \<longrightarrow>
            outcome (get_libdoc_closure env cp files (Finishes t (Inr d)) found_meta)
              = Some (Inr d))"
proof (cases "fst (load_cached env files cp base m)")
  case (Hit d')
  have r: "get_libdoc_closure env cp files (Finishes t (Inr d)) found_meta
             = \<lparr> outcome = Some (Inr d'), files_after = files,
                 effects = snd (load_cached env files cp base m) \<rparr>"
    using assms(1,2) Hit by (rule closure_Hit)
  have "\<not> runs_subprocess (get_libdoc_closure env cp files (Finishes t (Inr d)) found_meta)"
    unfolding r using load_cached_no_executor [of 1 Spawn env files cp base m]
    by (simp add: runs_subprocess_def)
  moreover have "cache_read_error env files cp base m = None"
    using Hit by (rule load_cached_Hit_no_error)
  ultimately show ?thesis using r by simp
next
  case (Raised e)
  have "cache_read_error env files cp base m = Some e \<and> is_control e"
    using assms(4) Raised by (rule load_cached_Raised_control)
  then show ?thesis using assms(5) by blast
next
  case Miss
  have r: "get_libdoc_closure env cp files (Finishes t (Inr d)) found_meta
             = build_from_worker env files cp (Finishes t (Inr d)) (Some m)
                 (snd (load_cached env files cp base m))"
    using assms(1,2) Miss by (rule closure_Miss)
  have "outcome (get_libdoc_closure env cp files (Finishes t (Inr d)) found_meta) = Some (Inr d)"
    unfolding r using assms(3,6) by (rule worker_returns_doc)
  moreover have "runs_subprocess (get_libdoc_closure env cp files (Finishes t (Inr d)) found_meta)"
    unfolding r by (rule build_from_worker_runs)
  ultimately show ?thesis by simp
qed

theorem cache_io_errors_not_fatal_witness:
  "(2::nat) \<le> LOAD_LIBRARY_TIME_OUT
   \<and> accessible garbled_files
        (cache_file (lib_doc_cache_path (build_example write_open_fails))
           ''robot/libraries/Collections.Collections'' ''.meta.json'')
   \<and> cache_read_error (build_example write_open_fails) garbled_files
        (lib_doc_cache_path (build_example write_open_fails))
        ''robot/libraries/Collections.Collections'' meta_module_example
       = Some (ValueError ''invalid json'')
   \<and> fst (write_pair (build_example write_open_fails) garbled_files
             (lib_doc_cache_path (build_example write_open_fails))
             meta_module_example collections_doc)
       = Some (RuntimeError ''Cannot write spec file'')
   \<and> runs_subprocess (get_libdoc_closure (build_example write_open_fails)
        (lib_doc_cache_path (build_example write_open_fails)) garbled_files
        (Finishes 2 (Inr collections_doc)) found_collections)
   \<and> outcome (get_libdoc_closure (build_example write_open_fails)
        (lib_doc_cache_path (build_example write_open_fails)) garbled_files
        (Finishes 2 (Inr collections_doc)) found_collections)
       = Some (Inr collections_doc)"
proof -
  let ?E = "build_example write_open_fails"
  have h1: "found_collections = Inr (Some meta_module_example, ''robot.libraries.Collections'')"
    by (simp add: found_collections_def)
  have h2: "filepath_base (pathlib_of ?E) meta_module_example
              = Inr ''robot/libraries/Collections.Collections''"
    by (simp add: build_example_sel base_module_example)
  have h3: "(2::nat) \<le> LOAD_LIBRARY_TIME_OUT"
    by (simp add: LOAD_LIBRARY_TIME_OUT_def)
  have re: "cache_read_error ?E garbled_files (lib_doc_cache_path ?E)
              ''robot/libraries/Collections.Collections'' meta_module_example
            = Some (ValueError ''invalid json'')"
    by (rule read_error_garbled_example)
  have we: "fst (write_pair ?E garbled_files (lib_doc_cache_path ?E)
                   meta_module_example collections_doc)
            = Some (RuntimeError ''Cannot write spec file'')"
    by (simp add: build_example_sel write_pair_open_fails_example)
  have acc: "accessible garbled_files
               (cache_file (lib_doc_cache_path ?E)
                  ''robot/libraries/Collections.Collections'' ''.meta.json'')"
    by (simp add: accessible_def garbled_files_def)
  have h4: "\<forall>e. cache_read_error ?E garbled_files (lib_doc_cache_path ?E)
              ''robot/libraries/Collections.Collections'' meta_module_example = Some e
            \<longrightarrow> \<not> is_control e"
    by (simp add: re is_control_def)
  have h5: "\<forall>e. fst (write_pair ?E garbled_files (lib_doc_cache_path ?E)
                   meta_module_example collections_doc) = Some e \<longrightarrow> \<not> is_control e"
    by (simp add: we is_control_def)
  from cache_io_errors_not_fatal [OF h1 h2 h3 acc h4 h5] re
  have "runs_subprocess (get_libdoc_closure ?E (lib_doc_cache_path ?E) garbled_files
          (Finishes 2 (Inr collections_doc)) found_collections)
        \<and> outcome (get_libdoc_closure ?E (lib_doc_cache_path ?E) garbled_files
          (Finishes 2 (Inr collections_doc)) found_collections) = Some (Inr collections_doc)"
    by simp
  then show ?thesis using h3 acc re we by simp
qed

text \<open>
  A control exception does reach the caller. Reading the meta file is interrupted by
  \<^verbatim>\<open>KeyboardInterrupt\<close>: both handlers re-raise it, the library build raises it and the
  worker is never started.
\<close>

theorem keyboard_interrupt_while_reading_propagates:
  "interrupted_files meta_file_example = Unreadable KeyboardInterrupt
   \<and> outcome (get_libdoc_library (build_example write_ok) (menv_example [] stat_ok)
        interrupted_files (Finishes 2 (Inr collections_doc))
        (Inr ''robot.libraries.Collections'') ''Collections'')
       = Some (Inl KeyboardInterrupt)
   \<and> \<not> runs_subprocess (get_libdoc_library (build_example write_ok) (menv_example [] stat_ok)
        interrupted_files (Finishes 2 (Inr collections_doc))
        (Inr ''robot.libraries.Collections'') ''Collections'')"
proof -
  let ?E = "build_example write_ok"
  have l: "load_cached ?E interrupted_files ''/w/.robotcode_cache/3.11.4/6.1/libdoc''
             ''robot/libraries/Collections.Collections'' meta_module_example
           = (Raised KeyboardInterrupt, [ReadText meta_file_example])"
    by (simp add: load_cached_def load_inner_def cache_files_example read_text_def
        exists_file_def interrupted_files_def is_control_def)
  have r: "get_libdoc_library ?E (menv_example [] stat_ok) interrupted_files
             (Finishes 2 (Inr collections_doc)) (Inr ''robot.libraries.Collections'') ''Collections''
           = \<lparr> outcome = Some (Inl KeyboardInterrupt), files_after = interrupted_files,
               effects = [ReadText meta_file_example] \<rparr>"
    by (simp add: get_libdoc_library_def get_libdoc_closure_def library_meta_collections
        build_example_sel base_module_example l)
  show ?thesis unfolding r by (simp add: interrupted_files_def runs_subprocess_def)
qed

text \<open>
  The existence test itself is not covered by any handler. Here the cache directory
  cannot be searched, so \<^verbatim>\<open>meta_file.exists()\<close> raises \<^verbatim>\<open>PermissionError\<close>: the library
  build raises it, nothing is read and the worker is never started.
\<close>

lemma inaccessible_meta_file_raises:
  "exists_file locked_files meta_file_example = Inl (OSError ''Permission denied'')
   \<and> \<not> is_control (OSError ''Permission denied'')
   \<and> get_libdoc_library (build_example write_ok) (menv_example [] stat_ok)
        locked_files (Finishes 2 (Inr collections_doc))
        (Inr ''robot.libraries.Collections'') ''Collections''
       = \<lparr> outcome = Some (Inl (OSError ''Permission denied'')), files_after = locked_files,
           effects = [] \<rparr>"
proof -
  let ?E = "build_example write_ok"
  have ex: "exists_file locked_files meta_file_example = Inl (OSError ''Permission denied'')"
    by (simp add: exists_file_def locked_files_def)
  have base: "filepath_base (pathlib_of ?E) meta_module_example
                = Inr ''robot/libraries/Collections.Collections''"
    by (simp add: build_example_sel base_module_example)
  have ex': "exists_file locked_files
               (cache_file (lib_doc_cache_path ?E)
                  ''robot/libraries/Collections.Collections'' ''.meta.json'')
             = Inl (OSError ''Permission denied'')"
    using ex by (simp add: build_example_sel cache_files_example)
  have r: "get_libdoc_library ?E (menv_example [] stat_ok) locked_files
             (Finishes 2 (Inr collections_doc)) (Inr ''robot.libraries.Collections'') ''Collections''
           = \<lparr> outcome = Some (Inl (OSError ''Permission denied'')),
               files_after = locked_files, effects = [] \<rparr>"
    unfolding get_libdoc_library_def
    by (rule closure_exists_raises [OF library_meta_collections base ex'])
  show ?thesis using ex r by (simp add: is_control_def)
qed

section \<open>Imports that are not cached\<close>

lemma closure_no_meta:
  assumes "t \<le> LOAD_LIBRARY_TIME_OUT"
  shows "get_libdoc_closure env cp files (Finishes t (Inr d)) (Inr (None, src))
           = \<lparr> outcome = Some (Inr d), files_after = files,
               effects = [ExecutorCreated 1 Spawn, ResultAwaited LOAD_LIBRARY_TIME_OUT,
                          ExecutorShutdown True] \<rparr>"
  using assms
  by (simp add: get_libdoc_closure_def build_from_worker_def run_worker_def future_result_def
      shutdown_returns_def save_result_def)

text \<open>
  What the two functions return without a meta. \<open>rn\<close> is the name that path resolution
  returned. Both functions return \<^verbatim>\<open>(None, rn)\<close> when the identity cannot be established
  and when the name or the origin matches an ignore pattern. When an error other than a
  control exception occurs after the resolution, \<^verbatim>\<open>get_library_meta\<close> returns
  \<^verbatim>\<open>(None, rn)\<close> and \<^verbatim>\<open>get_variables_meta\<close> returns \<^verbatim>\<open>(None, name)\<close> with the name as the
  caller wrote it. A build without meta whose worker returns a document in time returns
  that document, leaves every file as it was and writes nothing.
\<close>

lemma meta_none_cases:
  "(identify menv (is_library_by_path menv rn) rn = Inr None \<longrightarrow>
      get_library_meta menv (Inr rn) nm = Inr (None, rn))
   \<and> (\<forall>r. identify menv (is_library_by_path menv rn) rn = Inr (Some r)
           \<and> is_ignored menv (ignored_libraries_patters menv) r \<longrightarrow>
      get_library_meta menv (Inr rn) nm = Inr (None, rn))
   \<and> (\<forall>e. meta_body menv (is_library_by_path menv rn) (ignored_libraries_patters menv) rn = Inl e
           \<and> \<not> is_control e \<longrightarrow>
      get_library_meta menv (Inr rn) nm = Inr (None, rn))
   \<and> (identify menv (is_variables_by_path menv rn) rn = Inr None \<longrightarrow>
      get_variables_meta menv (Inr rn) nm = Inr (None, rn))
   \<and> (\<forall>r. identify menv (is_variables_by_path menv rn) rn = Inr (Some r)
           \<and> is_ignored menv (ignored_variables_patters menv) r \<longrightarrow>
      get_variables_meta menv (Inr rn) nm = Inr (None, rn))
   \<and> (\<forall>e. meta_body menv (is_variables_by_path menv rn) (ignored_variables_patters menv) rn = Inl e
           \<and> \<not> is_control e \<longrightarrow>
      get_variables_meta menv (Inr rn) nm = Inr (None, nm))
   \<and> (t \<le> LOAD_LIBRARY_TIME_OUT \<longrightarrow>
      outcome (get_libdoc_closure env cp files (Finishes t (Inr d)) (Inr (None, src)))
        = Some (Inr d)
      \<and> files_after (get_libdoc_closure env cp files (Finishes t (Inr d)) (Inr (None, src)))
        = files
      \<and> filter is_write
           (effects (get_libdoc_closure env cp files (Finishes t (Inr d)) (Inr (None, src))))
        = [])"
proof (intro conjI allI impI)
  assume "identify menv (is_library_by_path menv rn) rn = Inr None"
  then show "get_library_meta menv (Inr rn) nm = Inr (None, rn)"
    by (simp add: get_library_meta_def meta_body_def)
next
  fix r
  assume "identify menv (is_library_by_path menv rn) rn = Inr (Some r)
           \<and> is_ignored menv (ignored_libraries_patters menv) r"
  then show "get_library_meta menv (Inr rn) nm = Inr (None, rn)"
    by (simp add: get_library_meta_def meta_body_def)
next
  fix e
  assume "meta_body menv (is_library_by_path menv rn) (ignored_libraries_patters menv) rn = Inl e
           \<and> \<not> is_control e"
  then show "get_library_meta menv (Inr rn) nm = Inr (None, rn)"
    by (simp add: get_library_meta_def)
next
  assume "identify menv (is_variables_by_path menv rn) rn = Inr None"
  then show "get_variables_meta menv (Inr rn) nm = Inr (None, rn)"
    by (simp add: get_variables_meta_def meta_body_def)
next
  fix r
  assume "identify menv (is_variables_by_path menv rn) rn = Inr (Some r)
           \<and> is_ignored menv (ignored_variables_patters menv) r"
  then show "get_variables_meta menv (Inr rn) nm = Inr (None, rn)"
    by (simp add: get_variables_meta_def meta_body_def)
next
  fix e
  assume "meta_body menv (is_variables_by_path menv rn) (ignored_variables_patters menv) rn = Inl e
           \<and> \<not> is_control e"
  then show "get_variables_meta menv (Inr rn) nm = Inr (None, nm)"
    by (simp add: get_variables_meta_def)
next
  assume t: "t \<le> LOAD_LIBRARY_TIME_OUT"
  show "outcome (get_libdoc_closure env cp files (Finishes t (Inr d)) (Inr (None, src)))
          = Some (Inr d)"
    by (simp add: closure_no_meta [OF t])
  show "files_after (get_libdoc_closure env cp files (Finishes t (Inr d)) (Inr (None, src)))
          = files"
    by (simp add: closure_no_meta [OF t])
  show "filter is_write
          (effects (get_libdoc_closure env cp files (Finishes t (Inr d)) (Inr (None, src)))) = []"
    by (simp add: closure_no_meta [OF t] is_write_def)
qed

lemma identify_collections:
  "identify (menv_example pats stat) (is_library_by_path (menv_example pats stat)
       ''robot.libraries.Collections'') ''robot.libraries.Collections''
     = Inr (Some (meta_module_example\<lparr>mtimes := None\<rparr>))"
  by (simp add: identify_def menv_example_def meta_module_example_def)

lemma identify_unknown:
  "identify (menv_example pats stat) (is_library_by_path (menv_example pats stat) ''Unknown'')
       ''Unknown'' = Inr None"
  by (simp add: identify_def menv_example_def)

lemma ignored_collections:
  "is_ignored (menv_example [''robot.libraries.*''] stat)
     (ignored_libraries_patters (menv_example [''robot.libraries.*''] stat))
     (meta_module_example\<lparr>mtimes := None\<rparr>)"
  by (simp add: is_ignored_def menv_example_def meta_module_example_def glob_example_def)

lemma variables_body_stat_fails:
  "meta_body (menv_example [] stat_fails) (is_variables_by_path (menv_example [] stat_fails)
       ''/w/vars.py'') (ignored_variables_patters (menv_example [] stat_fails)) ''/w/vars.py''
     = Inl (OSError ''Permission denied'')"
  by (simp add: meta_body_def identify_def is_ignored_def collect_mtimes_def menv_example_def
      stat_fails_def)

lemma library_body_stat_fails:
  "meta_body (menv_example [] stat_fails) (is_library_by_path (menv_example [] stat_fails)
       ''/w/lib/My.py'') (ignored_libraries_patters (menv_example [] stat_fails)) ''/w/lib/My.py''
     = Inl (OSError ''Permission denied'')"
  by (simp add: meta_body_def identify_def is_ignored_def collect_mtimes_def menv_example_def
      stat_fails_def)

lemma meta_none_cases_example:
  "get_library_meta (menv_example [] stat_ok) (Inr ''Unknown'') ''Unknown''
     = Inr (None, ''Unknown'')
   \<and> get_library_meta (menv_example [''robot.libraries.*''] stat_ok)
       (Inr ''robot.libraries.Collections'') ''Collections''
     = Inr (None, ''robot.libraries.Collections'')
   \<and> get_library_meta (menv_example [] stat_fails) (Inr ''/w/lib/My.py'') ''lib/My.py''
     = Inr (None, ''/w/lib/My.py'')
   \<and> get_variables_meta (menv_example [] stat_fails) (Inr ''/w/vars.py'') ''vars.py''
     = Inr (None, ''vars.py'')
   \<and> (2::nat) \<le> LOAD_LIBRARY_TIME_OUT
   \<and> outcome (get_libdoc_closure (build_example write_ok)
        (lib_doc_cache_path (build_example write_ok)) no_files
        (Finishes 2 (Inr collections_doc)) (Inr (None, ''robot.libraries.Collections'')))
       = Some (Inr collections_doc)
   \<and> files_after (get_libdoc_closure (build_example write_ok)
        (lib_doc_cache_path (build_example write_ok)) no_files
        (Finishes 2 (Inr collections_doc)) (Inr (None, ''robot.libraries.Collections'')))
       = no_files"
proof -
  have nc: "\<not> is_control (OSError ''Permission denied'')"
    by (simp add: is_control_def)
  have t: "(2::nat) \<le> LOAD_LIBRARY_TIME_OUT"
    by (simp add: LOAD_LIBRARY_TIME_OUT_def)
  from meta_none_cases [of "menv_example [] stat_ok" "''Unknown''" "''Unknown''"]
    identify_unknown [of "[]" stat_ok]
  have a: "get_library_meta (menv_example [] stat_ok) (Inr ''Unknown'') ''Unknown''
             = Inr (None, ''Unknown'')"
    by blast
  from meta_none_cases [of "menv_example [''robot.libraries.*''] stat_ok"
      "''robot.libraries.Collections''" "''Collections''"]
    identify_collections [of "[''robot.libraries.*'']" stat_ok]
    ignored_collections [of stat_ok]
  have b: "get_library_meta (menv_example [''robot.libraries.*''] stat_ok)
             (Inr ''robot.libraries.Collections'') ''Collections''
           = Inr (None, ''robot.libraries.Collections'')"
    by blast
  from meta_none_cases [of "menv_example [] stat_fails" "''/w/lib/My.py''" "''lib/My.py''"]
    library_body_stat_fails nc
  have c: "get_library_meta (menv_example [] stat_fails) (Inr ''/w/lib/My.py'') ''lib/My.py''
             = Inr (None, ''/w/lib/My.py'')"
    by blast
  from meta_none_cases [of "menv_example [] stat_fails" "''/w/vars.py''" "''vars.py''"]
    variables_body_stat_fails nc
  have d: "get_variables_meta (menv_example [] stat_fails) (Inr ''/w/vars.py'') ''vars.py''
             = Inr (None, ''vars.py'')"
    by blast
  from meta_none_cases [of _ _ _ 2 "build_example write_ok"
      "lib_doc_cache_path (build_example write_ok)" no_files collections_doc
      "''robot.libraries.Collections''"] t
  have e: "outcome (get_libdoc_closure (build_example write_ok)
        (lib_doc_cache_path (build_example write_ok)) no_files
        (Finishes 2 (Inr collections_doc)) (Inr (None, ''robot.libraries.Collections'')))
       = Some (Inr collections_doc)
     \<and> files_after (get_libdoc_closure (build_example write_ok)
        (lib_doc_cache_path (build_example write_ok)) no_files
        (Finishes 2 (Inr collections_doc)) (Inr (None, ''robot.libraries.Collections'')))
       = no_files"
    by blast
  show ?thesis using a b c d e t by blast
qed

text \<open>
  Claim C6 fails in the code: on an error during fingerprinting, \<^verbatim>\<open>get_variables_meta\<close>
  does not return the resolved name. The import \<^verbatim>\<open>vars.py\<close> is resolved to
  \<^verbatim>\<open>/w/vars.py\<close>, reading the modification time of the file fails with an exception that
  is not a control exception, and the second component of the result is the name as the
  caller wrote it, not the resolved one. On the same error \<^verbatim>\<open>get_library_meta\<close> returns
  the resolved name, as the claim says of both.
\<close>

theorem variables_meta_error_returns_unresolved_name:
  "meta_body (menv_example [] stat_fails)
       (is_variables_by_path (menv_example [] stat_fails) ''/w/vars.py'')
       (ignored_variables_patters (menv_example [] stat_fails)) ''/w/vars.py''
     = Inl (OSError ''Permission denied'')
   \<and> \<not> is_control (OSError ''Permission denied'')
   \<and> get_variables_meta (menv_example [] stat_fails) (Inr ''/w/vars.py'') ''vars.py''
     = Inr (None, ''vars.py'')
   \<and> ''vars.py'' \<noteq> ''/w/vars.py''
   \<and> meta_body (menv_example [] stat_fails)
       (is_library_by_path (menv_example [] stat_fails) ''/w/lib/My.py'')
       (ignored_libraries_patters (menv_example [] stat_fails)) ''/w/lib/My.py''
     = Inl (OSError ''Permission denied'')
   \<and> get_library_meta (menv_example [] stat_fails) (Inr ''/w/lib/My.py'') ''lib/My.py''
     = Inr (None, ''/w/lib/My.py'')"
  by (simp add: get_variables_meta_def get_library_meta_def variables_body_stat_fails
      library_body_stat_fails is_control_def)

section \<open>The worker of a cache miss\<close>

lemma load_cached_no_executor_effect:
  "filter is_executor (snd (load_cached env files cp base m)) = []"
  by (auto simp: load_cached_def load_inner_def Let_def read_text_def is_executor_def
           split: file_state.splits sum.splits if_splits)

lemma write_pair_no_executor_effect:
  "filter is_executor (snd (snd (write_pair env files cp m d))) = []"
  by (auto simp: write_pair_def Let_def write_text_def is_executor_def
           split: option.splits sum.splits prod.splits write_outcome.splits)

lemma run_worker_executor_effects:
  "filter is_executor (snd (run_worker w))
     = [ExecutorCreated 1 Spawn, ResultAwaited LOAD_LIBRARY_TIME_OUT, ExecutorShutdown True]"
  by (auto simp: run_worker_def Let_def is_executor_def split: sum.splits)

lemma save_result_executor_effects:
  "filter is_executor (effects (save_result env files cp mo d effs)) = filter is_executor effs"
proof (cases mo)
  case None
  then show ?thesis by (simp add: save_result_def)
next
  case (Some m)
  obtain x files' effs' where wp: "write_pair env files cp m d = (x, files', effs')"
    by (cases "write_pair env files cp m d")
  have "filter is_executor effs' = []"
    using write_pair_no_executor_effect [of env files cp m d] wp by simp
  then show ?thesis using Some wp
    by (auto simp: save_result_def is_executor_def split: option.splits)
qed

lemma build_from_worker_executor_effects:
  assumes "filter is_executor effs = []"
  shows "filter is_executor (effects (build_from_worker env files cp w mo effs))
           = [ExecutorCreated 1 Spawn, ResultAwaited LOAD_LIBRARY_TIME_OUT, ExecutorShutdown True]"
proof (cases "run_worker w")
  case (Pair wr weffs)
  have we: "filter is_executor weffs
              = [ExecutorCreated 1 Spawn, ResultAwaited LOAD_LIBRARY_TIME_OUT, ExecutorShutdown True]"
    using run_worker_executor_effects [of w] Pair by simp
  show ?thesis
  proof (cases wr)
    case None
    then show ?thesis using Pair we assms by (simp add: build_from_worker_def)
  next
    case (Some res)
    then show ?thesis using Pair we assms save_result_executor_effects
      by (cases res) (simp_all add: build_from_worker_def)
  qed
qed

lemma closure_runs_cases:
  assumes "runs_subprocess (get_libdoc_closure env cp files w found_meta)"
  shows "\<exists>mo effs. get_libdoc_closure env cp files w found_meta
                     = build_from_worker env files cp w mo effs
                  \<and> filter is_executor effs = []"
proof (cases found_meta)
  case (Inl e)
  then show ?thesis using assms by (simp add: get_libdoc_closure_def runs_subprocess_def)
next
  case (Inr ms)
  obtain mo src where ms: "ms = (mo, src)" by (cases ms)
  show ?thesis
  proof (cases mo)
    case None
    then have "get_libdoc_closure env cp files w found_meta
                 = build_from_worker env files cp w None []"
      using Inr ms by (simp add: get_libdoc_closure_def)
    then show ?thesis by (intro exI [of _ None] exI [of _ "[]"]) simp
  next
    case (Some m)
    then have fm: "found_meta = Inr (Some m, src)" using Inr ms by simp
    show ?thesis
    proof (cases "filepath_base (pathlib_of env) m")
      case (Inl e)
      then show ?thesis using assms fm by (simp add: get_libdoc_closure_def runs_subprocess_def)
    next
      case base: (Inr base)
      show ?thesis
      proof (cases "fst (load_cached env files cp base m)")
        case (Hit d)
        from closure_Hit [OF fm base Hit] assms
          load_cached_no_executor [of 1 Spawn env files cp base m]
        show ?thesis by (simp add: runs_subprocess_def)
      next
        case (Raised e)
        from closure_Raised [OF fm base Raised] assms
          load_cached_no_executor [of 1 Spawn env files cp base m]
        show ?thesis by (simp add: runs_subprocess_def)
      next
        case Miss
        from closure_Miss [OF fm base Miss] load_cached_no_executor_effect [of env files cp base m]
        show ?thesis by blast
      qed
    qed
  qed
qed

lemma build_from_worker_failure:
  assumes "future_result w LOAD_LIBRARY_TIME_OUT = Inl x" and "w = Finishes t res"
  shows "outcome (build_from_worker env files cp w mo effs) = Some (Inl x)"
    and "files_after (build_from_worker env files cp w mo effs) = files"
  using assms by (simp_all add: build_from_worker_def run_worker_def shutdown_returns_def)

lemma build_from_worker_never:
  "outcome (build_from_worker env files cp Never mo effs) = None"
  by (simp add: build_from_worker_def run_worker_def shutdown_returns_def)

lemma future_result_failure:
  assumes "LOAD_LIBRARY_TIME_OUT < t \<or> (\<exists>x. res = Inl x)"
  shows "\<exists>x. future_result (Finishes t res) LOAD_LIBRARY_TIME_OUT = Inl x
             \<and> (LOAD_LIBRARY_TIME_OUT < t \<longrightarrow> x = TimeoutError)
             \<and> (t \<le> LOAD_LIBRARY_TIME_OUT \<longrightarrow> res = Inl x)"
  using assms by (auto simp: future_result_def)

lemma l_get_libdoc_failure:
  assumes "l_lib_doc e = None" and "outcome (coroutine files) = Some (Inl x)"
  shows "returned (l_get_libdoc wenv coroutine files e) = Some (Inl x)"
    and "entry_after (l_get_libdoc wenv coroutine files e) = e"
    and "request_files (l_get_libdoc wenv coroutine files e) = files_after (coroutine files)"
  using assms by (simp_all add: l_get_libdoc_def Let_def)

lemma v_get_libdoc_failure:
  assumes "v_lib_doc e = None" and "outcome (coroutine files) = Some (Inl x)"
  shows "returned (v_get_libdoc coroutine files e) = Some (Inl x)"
    and "entry_after (v_get_libdoc coroutine files e) = e"
    and "request_files (v_get_libdoc coroutine files e) = files_after (coroutine files)"
  using assms by (simp_all add: v_get_libdoc_def Let_def)

lemma l_get_libdoc_builds:
  "l_lib_doc e = None \<Longrightarrow> build_called (l_get_libdoc wenv coroutine files e)"
  by (simp add: l_get_libdoc_def Let_def split: option.splits sum.splits)

lemma v_get_libdoc_builds:
  "v_lib_doc e = None \<Longrightarrow> build_called (v_get_libdoc coroutine files e)"
  by (simp add: v_get_libdoc_def Let_def split: option.splits sum.splits)

lemma l_get_libdoc_never:
  assumes "l_lib_doc e = None" and "outcome (coroutine files) = None"
  shows "returned (l_get_libdoc wenv coroutine files e) = None"
  using assms by (simp add: l_get_libdoc_def Let_def)

lemma v_get_libdoc_never:
  assumes "v_lib_doc e = None" and "outcome (coroutine files) = None"
  shows "returned (v_get_libdoc coroutine files e) = None"
  using assms by (simp add: v_get_libdoc_def Let_def)

text \<open>
  Claim C7, as the code has it. \<open>C\<close> is the build closure of a library or variables
  entry, and the build is a cache miss: it uses the worker. Then the build creates one
  executor with one worker and the start method \<^verbatim>\<open>spawn\<close>, waits for the result for 30
  seconds, and shuts the executor down with \<^verbatim>\<open>wait=True\<close>. When the call in the worker
  ends with an exception, or ends after the 30 seconds, the request to an entry without
  document raises (the exception of the call, or \<^verbatim>\<open>TimeoutError\<close>), the entry is as
  before and not valid, and the next request to it calls the build closure again. When
  the call in the worker never ends, the request does not return.
\<close>

theorem cache_miss_build_worker:
  assumes "C = build_closure env cp w found_meta"
      and "runs_subprocess (C files)"
      and "l_lib_doc le = None"
      and "v_lib_doc ve = None"
  shows "filter is_executor (effects (C files))
           = [ExecutorCreated 1 Spawn, ResultAwaited 30, ExecutorShutdown True]
       \<and> (\<forall>t res. w = Finishes t res \<and> (30 < t \<or> (\<exists>x. res = Inl x)) \<longrightarrow>
            (\<exists>x. returned (l_get_libdoc wenv C files le) = Some (Inl x)
                \<and> returned (v_get_libdoc C files ve) = Some (Inl x)
                \<and> (30 < t \<longrightarrow> x = TimeoutError)
                \<and> (t \<le> 30 \<longrightarrow> res = Inl x))
            \<and> entry_after (l_get_libdoc wenv C files le) = le
            \<and> \<not> l_is_valid (entry_after (l_get_libdoc wenv C files le))
            \<and> build_called (l_get_libdoc wenv C (request_files (l_get_libdoc wenv C files le))
                              (entry_after (l_get_libdoc wenv C files le)))
            \<and> entry_after (v_get_libdoc C files ve) = ve
            \<and> \<not> v_is_valid (entry_after (v_get_libdoc C files ve))
            \<and> build_called (v_get_libdoc C (request_files (v_get_libdoc C files ve))
                              (entry_after (v_get_libdoc C files ve))))
       \<and> (w = Never \<longrightarrow>
            returned (l_get_libdoc wenv C files le) = None
            \<and> returned (v_get_libdoc C files ve) = None)"
proof -
  from closure_runs_cases [of env cp files w found_meta] assms(1,2)
  obtain mo effs where
    r: "C files = build_from_worker env files cp w mo effs" and
    ne: "filter is_executor effs = []"
    by (auto simp: build_closure_def)
  have part1: "filter is_executor (effects (C files))
                 = [ExecutorCreated 1 Spawn, ResultAwaited 30, ExecutorShutdown True]"
    unfolding r using build_from_worker_executor_effects [OF ne, of env files cp w mo]
    by (simp add: LOAD_LIBRARY_TIME_OUT_def)
  have part2: "\<forall>t res. w = Finishes t res \<and> (30 < t \<or> (\<exists>x. res = Inl x)) \<longrightarrow>
            (\<exists>x. returned (l_get_libdoc wenv C files le) = Some (Inl x)
                \<and> returned (v_get_libdoc C files ve) = Some (Inl x)
                \<and> (30 < t \<longrightarrow> x = TimeoutError)
                \<and> (t \<le> 30 \<longrightarrow> res = Inl x))
            \<and> entry_after (l_get_libdoc wenv C files le) = le
            \<and> \<not> l_is_valid (entry_after (l_get_libdoc wenv C files le))
            \<and> build_called (l_get_libdoc wenv C (request_files (l_get_libdoc wenv C files le))
                              (entry_after (l_get_libdoc wenv C files le)))
            \<and> entry_after (v_get_libdoc C files ve) = ve
            \<and> \<not> v_is_valid (entry_after (v_get_libdoc C files ve))
            \<and> build_called (v_get_libdoc C (request_files (v_get_libdoc C files ve))
                              (entry_after (v_get_libdoc C files ve)))"
  proof (intro allI impI)
    fix t res
    assume h: "w = Finishes t res \<and> (30 < t \<or> (\<exists>x. res = Inl x))"
    then have w: "w = Finishes t res" by simp
    from h have "LOAD_LIBRARY_TIME_OUT < t \<or> (\<exists>x. res = Inl x)"
      by (simp add: LOAD_LIBRARY_TIME_OUT_def)
    from future_result_failure [OF this]
    obtain x where
      fr: "future_result (Finishes t res) LOAD_LIBRARY_TIME_OUT = Inl x" and
      late: "30 < t \<longrightarrow> x = TimeoutError" and
      intime: "t \<le> 30 \<longrightarrow> res = Inl x"
      by (auto simp: LOAD_LIBRARY_TIME_OUT_def)
    have fr': "future_result w LOAD_LIBRARY_TIME_OUT = Inl x" using fr w by simp
    have out: "outcome (C files) = Some (Inl x)"
      unfolding r by (rule build_from_worker_failure(1) [OF fr' w])
    note L = l_get_libdoc_failure [where coroutine = C and files = files and wenv = wenv,
        OF assms(3) out]
    note V = v_get_libdoc_failure [where coroutine = C and files = files, OF assms(4) out]
    have "\<exists>x. returned (l_get_libdoc wenv C files le) = Some (Inl x)
                \<and> returned (v_get_libdoc C files ve) = Some (Inl x)
                \<and> (30 < t \<longrightarrow> x = TimeoutError)
                \<and> (t \<le> 30 \<longrightarrow> res = Inl x)"
      using L(1) V(1) late intime by blast
    moreover have "\<not> l_is_valid (entry_after (l_get_libdoc wenv C files le))"
      using L(2) assms(3) by (simp add: l_is_valid_def)
    moreover have "\<not> v_is_valid (entry_after (v_get_libdoc C files ve))"
      using V(2) assms(4) by (simp add: v_is_valid_def)
    moreover have "build_called (l_get_libdoc wenv C (request_files (l_get_libdoc wenv C files le))
                              (entry_after (l_get_libdoc wenv C files le)))"
      unfolding L(2) using assms(3) by (rule l_get_libdoc_builds)
    moreover have "build_called (v_get_libdoc C (request_files (v_get_libdoc C files ve))
                              (entry_after (v_get_libdoc C files ve)))"
      unfolding V(2) using assms(4) by (rule v_get_libdoc_builds)
    ultimately show "(\<exists>x. returned (l_get_libdoc wenv C files le) = Some (Inl x)
                \<and> returned (v_get_libdoc C files ve) = Some (Inl x)
                \<and> (30 < t \<longrightarrow> x = TimeoutError)
                \<and> (t \<le> 30 \<longrightarrow> res = Inl x))
            \<and> entry_after (l_get_libdoc wenv C files le) = le
            \<and> \<not> l_is_valid (entry_after (l_get_libdoc wenv C files le))
            \<and> build_called (l_get_libdoc wenv C (request_files (l_get_libdoc wenv C files le))
                              (entry_after (l_get_libdoc wenv C files le)))
            \<and> entry_after (v_get_libdoc C files ve) = ve
            \<and> \<not> v_is_valid (entry_after (v_get_libdoc C files ve))
            \<and> build_called (v_get_libdoc C (request_files (v_get_libdoc C files ve))
                              (entry_after (v_get_libdoc C files ve)))"
      using L(2) V(2) by blast
  qed
  have part3: "w = Never \<longrightarrow>
            returned (l_get_libdoc wenv C files le) = None
            \<and> returned (v_get_libdoc C files ve) = None"
  proof
    assume n: "w = Never"
    have out: "outcome (C files) = None"
      unfolding r n by (rule build_from_worker_never)
    show "returned (l_get_libdoc wenv C files le) = None
            \<and> returned (v_get_libdoc C files ve) = None"
      using l_get_libdoc_never [where coroutine = C and files = files, OF assms(3) out]
        v_get_libdoc_never [where coroutine = C and files = files, OF assms(4) out]
      by simp
  qed
  show ?thesis using part1 part2 part3 by blast
qed

lemma miss_on_no_files:
  "runs_subprocess (build_closure (build_example wo) (lib_doc_cache_path (build_example wo)) w
     found_collections no_files)"
proof -
  have l: "load_cached (build_example wo) no_files ''/w/.robotcode_cache/3.11.4/6.1/libdoc''
             ''robot/libraries/Collections.Collections'' meta_module_example = (Miss, [])"
    by (rule load_cached_absent) (simp add: no_files_def)
  have "build_closure (build_example wo) (lib_doc_cache_path (build_example wo)) w
          found_collections no_files
        = build_from_worker (build_example wo) no_files ''/w/.robotcode_cache/3.11.4/6.1/libdoc'' w
            (Some meta_module_example) []"
    by (simp add: build_closure_def get_libdoc_closure_def found_collections_def
        build_example_sel base_module_example l)
  then show ?thesis by (simp add: build_from_worker_runs)
qed

theorem cache_miss_build_worker_witness:
  "runs_subprocess (build_closure (build_example write_ok)
      (lib_doc_cache_path (build_example write_ok)) (Finishes 60 (Inr collections_doc))
      found_collections no_files)
   \<and> l_lib_doc empty_library_entry = None
   \<and> v_lib_doc empty_variables_entry = None
   \<and> (30::nat) < 60
   \<and> returned (l_get_libdoc watch_example
        (build_closure (build_example write_ok) (lib_doc_cache_path (build_example write_ok))
           (Finishes 60 (Inr collections_doc)) found_collections)
        no_files empty_library_entry)
       = Some (Inl TimeoutError)
   \<and> \<not> l_is_valid (entry_after (l_get_libdoc watch_example
        (build_closure (build_example write_ok) (lib_doc_cache_path (build_example write_ok))
           (Finishes 60 (Inr collections_doc)) found_collections)
        no_files empty_library_entry))
   \<and> returned (v_get_libdoc
        (build_closure (build_example write_ok) (lib_doc_cache_path (build_example write_ok))
           Never found_collections)
        no_files empty_variables_entry)
       = None"
proof -
  let ?C = "build_closure (build_example write_ok) (lib_doc_cache_path (build_example write_ok))
              (Finishes 60 (Inr collections_doc)) found_collections"
  let ?N = "build_closure (build_example write_ok) (lib_doc_cache_path (build_example write_ok))
              Never found_collections"
  have le: "l_lib_doc empty_library_entry = None" by (simp add: empty_library_entry_def)
  have ve: "v_lib_doc empty_variables_entry = None" by (simp add: empty_variables_entry_def)
  have m1: "runs_subprocess (?C no_files)" by (rule miss_on_no_files)
  have m2: "runs_subprocess (?N no_files)" by (rule miss_on_no_files)
  from cache_miss_build_worker [OF refl m1 le ve, of watch_example]
  have "\<exists>x. returned (l_get_libdoc watch_example ?C no_files empty_library_entry) = Some (Inl x)
           \<and> x = TimeoutError"
    by auto
  then have a: "returned (l_get_libdoc watch_example ?C no_files empty_library_entry)
                  = Some (Inl TimeoutError)"
    by auto
  from cache_miss_build_worker [OF refl m1 le ve, of watch_example]
  have b: "\<not> l_is_valid (entry_after (l_get_libdoc watch_example ?C no_files empty_library_entry))"
    by auto
  from cache_miss_build_worker [OF refl m2 le ve, of watch_example]
  have c: "returned (v_get_libdoc ?N no_files empty_variables_entry) = None"
    by auto
  show ?thesis using m1 le ve a b c by simp
qed

text \<open>
  The deadline bounds the wait for the result, not the build. The call in the worker
  never ends: \<^verbatim>\<open>Future.result(30)\<close> raises \<^verbatim>\<open>TimeoutError\<close>, the \<^verbatim>\<open>finally\<close> clause calls
  \<^verbatim>\<open>executor.shutdown(wait=True)\<close>, and the request to the entry never returns, so no
  exception reaches the caller.
\<close>

theorem hung_worker_request_never_returns:
  "future_result Never LOAD_LIBRARY_TIME_OUT = Inl TimeoutError
   \<and> effects (build_closure (build_example write_ok) (lib_doc_cache_path (build_example write_ok))
        Never found_collections no_files)
       = [ExecutorCreated 1 Spawn, ResultAwaited 30, LogException TimeoutError,
          ExecutorShutdown True]
   \<and> returned (l_get_libdoc watch_example
        (build_closure (build_example write_ok) (lib_doc_cache_path (build_example write_ok))
           Never found_collections)
        no_files empty_library_entry)
       = None"
proof -
  have l: "load_cached (build_example write_ok) no_files ''/w/.robotcode_cache/3.11.4/6.1/libdoc''
             ''robot/libraries/Collections.Collections'' meta_module_example = (Miss, [])"
    by (rule load_cached_absent) (simp add: no_files_def)
  have r: "build_closure (build_example write_ok) (lib_doc_cache_path (build_example write_ok))
             Never found_collections no_files
           = \<lparr> outcome = None, files_after = no_files,
               effects = [ExecutorCreated 1 Spawn, ResultAwaited 30, LogException TimeoutError,
                          ExecutorShutdown True] \<rparr>"
    by (simp add: build_closure_def get_libdoc_closure_def found_collections_def
        build_example_sel base_module_example l build_from_worker_def run_worker_def
        future_result_def shutdown_returns_def LOAD_LIBRARY_TIME_OUT_def is_control_def)
  show ?thesis
    by (simp add: l_get_libdoc_def empty_library_entry_def r future_result_def)
qed

section \<open>Invalidation before events\<close>

subsection \<open>The scans\<close>


























subsection \<open>The removals\<close>








subsection \<open>The events\<close>






subsection \<open>The dispatcher\<close>



section \<open>Debounced changes of a resource document\<close>















section \<open>Requests to valid entries\<close>

text \<open>
  What the scans of \<^verbatim>\<open>did_change_watched_files\<close> rely on: \<^verbatim>\<open>get_libdoc()\<close> of a valid
  library or variables entry returns the document the entry holds, without calling the
  build closure and without changing the entry or the files.
\<close>

lemma l_get_libdoc_valid:
  "l_lib_doc e = Some d \<Longrightarrow>
     l_get_libdoc env coroutine files e
       = \<lparr> returned = Some (Inr d), entry_after = e, request_files = files,
           request_effects = [], build_called = False \<rparr>"
  by (simp add: l_get_libdoc_def)

lemma v_get_libdoc_valid:
  "v_lib_doc e = Some d \<Longrightarrow>
     v_get_libdoc coroutine files e
       = \<lparr> returned = Some (Inr d), entry_after = e, request_files = files,
           request_effects = [], build_called = False \<rparr>"
  by (simp add: v_get_libdoc_def)

end
